theory Spec2Isabelle
  imports Complex_Main
begin

section \<open>Strings\<close>

text \<open>
  Python strings are modelled as \<open>string\<close>; a character stands for a code point below 256.
  \<open>isspace\<close> is \<open>str.isspace\<close> on that range, \<open>strip\<close> is \<open>str.strip()\<close> without
  arguments, \<open>contains sub s\<close> is the Python test \<open>sub in s\<close>.
\<close>

definition isspace :: "char \<Rightarrow> bool" where
  "isspace c = (of_char c \<in> {9, 10, 11, 12, 13, 28, 29, 30, 31, 32, 133, 160 :: nat})"

definition strip :: "string \<Rightarrow> string" where
  "strip s = rev (dropWhile isspace (rev (dropWhile isspace s)))"

definition startswith :: "string \<Rightarrow> string \<Rightarrow> bool" where
  "startswith s sub = (take (length sub) s = sub)"

fun contains :: "string \<Rightarrow> string \<Rightarrow> bool" where
  "contains sub [] = (sub = [])"
| "contains sub (c # cs) = (startswith (c # cs) sub \<or> contains sub cs)"

definition replace_char :: "char \<Rightarrow> char \<Rightarrow> string \<Rightarrow> string" where
  "replace_char a b s = map (\<lambda>c. if c = a then b else c) s"

section \<open>User interface events\<close>

text \<open>
  The calls \<open>st.warning\<close>, \<open>st.error\<close>, \<open>st.info\<close>, \<open>st.success\<close>, \<open>st.balloons\<close> and
  \<open>st.rerun\<close> are recorded as events. A message is a constructor carrying the values that the
  source formats into the text. Logger calls have no effect on the program and are left out.
\<close>

text \<open>
  \<open>Psycopg2_Error\<close> is an exception of class \<open>psycopg2.Error\<close>; \<open>Other_Exception\<close> is any
  other exception, such as the \<open>TypeError\<close>, \<open>ValueError\<close> or \<open>AttributeError\<close> that a blank
  cell of a data frame causes.
\<close>

datatype exn = Psycopg2_Error | Other_Exception

text \<open>
  A cell of the data frame that \<open>st.data_editor\<close> returns: a value, \<open>NaN\<close> (a blank cell of a
  numeric column) or \<open>Missing\<close> (Python's \<open>None\<close>, a blank cell of an object column). A
  Python float is a real or not-a-number.
\<close>

datatype 'a cell = Value 'a | NaN | Missing

datatype pyfloat = Float real | Float_nan

text \<open>
  \<open>a < b\<close> and \<open>a > b\<close> on cells of a numeric column: a comparison with \<open>None\<close> raises
  \<open>TypeError\<close>, a comparison with \<open>NaN\<close> is \<open>False\<close>.
\<close>

fun cell_lt :: "real cell \<Rightarrow> real cell \<Rightarrow> exn + bool" where
  "cell_lt Missing b = Inl Other_Exception"
| "cell_lt a Missing = Inl Other_Exception"
| "cell_lt (Value x) (Value y) = Inr (x < y)"
| "cell_lt a b = Inr False"

definition cell_gt :: "real cell \<Rightarrow> real cell \<Rightarrow> exn + bool" where
  "cell_gt a b = cell_lt b a"

text \<open>
  \<open>int(c)\<close> raises \<open>ValueError\<close> on \<open>NaN\<close> and \<open>TypeError\<close> on \<open>None\<close>; \<open>float(c)\<close> raises
  \<open>TypeError\<close> on \<open>None\<close>; a string method called on a blank cell raises \<open>AttributeError\<close>.
\<close>

fun py_int :: "int cell \<Rightarrow> exn + int" where
  "py_int (Value n) = Inr n"
| "py_int NaN = Inl Other_Exception"
| "py_int Missing = Inl Other_Exception"

fun py_float :: "real cell \<Rightarrow> exn + pyfloat" where
  "py_float (Value x) = Inr (Float x)"
| "py_float NaN = Inr Float_nan"
| "py_float Missing = Inl Other_Exception"

fun str_of_cell :: "string cell \<Rightarrow> exn + string" where
  "str_of_cell (Value x) = Inr x"
| "str_of_cell NaN = Inl Other_Exception"
| "str_of_cell Missing = Inl Other_Exception"

definition bind_exn :: "exn + 'a \<Rightarrow> ('a \<Rightarrow> exn + 'b) \<Rightarrow> exn + 'b" where
  "bind_exn m k = (case m of Inl e \<Rightarrow> Inl e | Inr v \<Rightarrow> k v)"

text \<open>
  The error texts that the land use validators return, with the cell \<open>Parcel No.\<close> they
  format into the text.
\<close>

datatype land_error =
    Total_area_not_positive
  | Years_negative
  | No_crop_method
  | Parcels_less_than_one
  | Location_empty
  | Location_too_long
  | Total_acres_negative "int cell"
  | Developed_acres_negative "int cell"
  | Irrigated_area_negative "int cell"
  | Developed_exceeds_total "int cell"

datatype msg =
    No_data_to_save
  | Unable_to_connect
  | Updating_existing_records
  | Database_error exn
  | Error_saving_data exn
  | Open_entry_unspecified int
  | Equipment_name_too_long string
  | Please_enter_quantities string
  | Quantity_out_of_range string string
  | Machinery_saved
  | Database_connection_error exn
  | Cannot_connect
  | Land_use_saved
  | Error_saving_land_use exn
  | Irrigated_exceeds_total "int cell"
  | Land_use_error land_error

datatype ui_event = Warning msg | Error msg | Info msg | Success msg | Balloons | Rerun

section \<open>Agricultural machinery: rows and validation\<close>

record machinery_values =
  has_item :: string
  equipment_name :: string
  quantity_new :: int
  quantity_used :: int
  quantity_out_of_service :: int
  source :: string

record machinery_row = machinery_values +
  holder_id :: string

text \<open>\<open>row[qty_type]\<close> for the three keys the validator iterates over.\<close>

definition qty_value :: "machinery_row \<Rightarrow> string \<Rightarrow> int" where
  "qty_value row qty_type =
     (if qty_type = ''quantity_new'' then quantity_new row
      else if qty_type = ''quantity_used'' then quantity_used row
      else quantity_out_of_service row)"

text \<open>
  One guarded report of the validator: \<open>if cond: st.error(m); validation_passed = False\<close>.
  The state is the pair of \<open>validation_passed\<close> and the events emitted so far.
\<close>

definition report_if :: "bool \<Rightarrow> msg \<Rightarrow> bool \<times> ui_event list \<Rightarrow> bool \<times> ui_event list" where
  "report_if cond m acc = (if cond then (False, snd acc @ [Error m]) else acc)"

definition open_entry_guard :: "string \<Rightarrow> bool" where
  "open_entry_guard name = (contains ''Open Entry'' name \<and> strip name = [])"

definition validate_row :: "nat \<Rightarrow> machinery_row \<Rightarrow> bool \<times> ui_event list \<Rightarrow> bool \<times> ui_event list" where
  "validate_row i row acc =
     (let name = equipment_name row;
          acc1 = report_if (open_entry_guard name) (Open_entry_unspecified (int i - 5)) acc;
          acc2 = report_if (length name > 100) (Equipment_name_too_long name) acc1;
          acc3 = (if has_item row = ''Y''
                  then (let total_qty = quantity_new row + quantity_used row + quantity_out_of_service row
                        in report_if (total_qty = 0) (Please_enter_quantities name) acc2)
                  else acc2)
      in fold (\<lambda>qty_type a.
                 let qty = qty_value row qty_type
                 in report_if (qty < 0 \<or> qty > 20)
                      (Quantity_out_of_range name (replace_char (CHR ''_'') (CHR '' '') qty_type)) a)
           [''quantity_new'', ''quantity_used'', ''quantity_out_of_service''] acc3)"

fun validate_loop :: "nat \<Rightarrow> machinery_row list \<Rightarrow> bool \<times> ui_event list \<Rightarrow> bool \<times> ui_event list" where
  "validate_loop i [] acc = acc"
| "validate_loop i (row # rows) acc = validate_loop (Suc i) rows (validate_row i row acc)"

definition validate_machinery_data :: "machinery_row list \<Rightarrow> bool \<times> ui_event list" where
  "validate_machinery_data machinery_data = validate_loop 0 machinery_data (True, [])"

section \<open>The database\<close>

text \<open>
  Modelled from the spec: the declarations of the tables \<open>agricultural_machinery\<close> and
  \<open>holder_survey_progress\<close> are not part of the sources. The spec gives
  \<open>holder_survey_progress(id, holder_id, section_id|section_no, completed)\<close> and per-section
  tables with a \<open>holder_id\<close> and the section's value columns. Both tables get a serial \<open>id\<close>.
  The sources name two section columns of the progress table, \<open>section_no\<close> and
  \<open>section_id\<close>, and each \<open>INSERT\<close> names only one of them. What the table then shows in
  the other one is not known: \<open>NULL\<close>, the column's default, or the section just written,
  where the two names stand for one column as in the spec. It is a parameter of the model, kept
  in the session: \<open>omitted_section_no s sec\<close> is the \<open>section_no\<close> of a row inserted with
  \<open>section_id = sec\<close> alone, and \<open>omitted_section_id s sec\<close> the \<open>section_id\<close> of a row
  inserted with \<open>section_no = sec\<close> alone. A table that rejects such an \<open>INSERT\<close>, or that
  lacks a column a statement names, makes the statement raise; that is a case of \<open>faults\<close>
  below. The table \<open>holding_labour\<close> has the
  columns the labour form reads and writes. The tables \<open>land_use\<close> and \<open>land_use_parcels\<close>
  follow \<open>setup_land_use_tables\<close>; the columns \<open>created_at\<close>, \<open>updated_at\<close> and the parcels'
  own \<open>id\<close>, which no function reads, are left out.
\<close>

record progress_row =
  progress_id :: nat
  progress_holder_id :: int
  section_no :: "int option"
  section_id :: "int option"
  completed :: bool

record parcel =
  parcel_no :: int
  total_acres :: pyfloat
  developed_acres :: pyfloat
  tenure :: string
  use_of_land :: string
  irrigated_area :: pyfloat
  land_clearing :: string

record land_use_values =
  total_area :: real
  years_used :: real
  main_purpose :: string
  num_parcels :: int
  location :: string
  crop_methods :: "string list"

record land_use_data = land_use_values +
  parcels :: "parcel list"

record land_use_rec = land_use_values +
  land_use_id :: nat
  land_use_holder_id :: int

record labour_answers =
  male_count :: "int option"
  female_count :: "int option"
  total_count :: "int option"
  option_response :: "string option"

record labour_rec = labour_answers +
  labour_id :: nat
  labour_holder_id :: int
  question_no :: int
  question_text :: string

record tables =
  agricultural_machinery :: "(nat \<times> machinery_row) list"
  holder_survey_progress :: "progress_row list"
  land_use :: "land_use_rec list"
  land_use_parcels :: "(nat \<times> parcel) list"
  holding_labour :: "labour_rec list"

datatype table_name =
  Agricultural_machinery | Holder_survey_progress | Land_use | Land_use_parcels | Holding_labour

text \<open>
  What a connection sends to the server. \<open>Insert t k\<close> is the \<open>k\<close>-th statement of a bulk
  insert into \<open>t\<close>.
\<close>

datatype stmt =
    Connect
  | Select table_name
  | Insert table_name nat
  | Update table_name
  | Delete table_name
  | Commit
  | Rollback
  | Close

text \<open>
  A session is the world one operation runs in: the committed tables (\<open>stored\<close>), the tables
  as the open transaction sees them (\<open>txn\<close>), the serial sequences, which a rollback does not
  reset, the two parameters of the progress table, the events shown to the user and the
  statements issued.
\<close>

record session =
  stored :: tables
  txn :: tables
  seq_machinery :: nat
  seq_progress :: nat
  seq_land_use :: nat
  seq_labour :: nat
  omitted_section_no :: "int \<Rightarrow> int option"
  omitted_section_id :: "int \<Rightarrow> int option"
  ui :: "ui_event list"
  trace :: "stmt list"

text \<open>
  Three progress tables: the column left out is \<open>NULL\<close>, it has a default, or it is the column
  that was written.
\<close>

definition null_column :: "int \<Rightarrow> int option" where
  "null_column sec = None"



text \<open>
  Which statements raise is decided by the environment: \<open>faults k = Some e\<close> says that
  statement \<open>k\<close> raises \<open>e\<close> and has no effect. An action returns \<open>Inl e\<close> when it raises.
\<close>

type_synonym faults = "stmt \<Rightarrow> exn option"

type_synonym 'a action = "session \<Rightarrow> (exn + 'a) \<times> session"

definition no_faults :: faults where
  "no_faults = (\<lambda>k. None)"

definition emit :: "ui_event \<Rightarrow> session \<Rightarrow> session" where
  "emit e s = s\<lparr>ui := ui s @ [e]\<rparr>"

definition issue :: "stmt \<Rightarrow> session \<Rightarrow> session" where
  "issue k s = s\<lparr>trace := trace s @ [k]\<rparr>"

definition execute :: "faults \<Rightarrow> stmt \<Rightarrow> 'a action \<Rightarrow> 'a action" where
  "execute f k run s = (case f k of Some e \<Rightarrow> (Inl e, issue k s) | None \<Rightarrow> run (issue k s))"

definition and_then :: "'a action \<Rightarrow> ('a \<Rightarrow> 'b action) \<Rightarrow> 'b action" where
  "and_then m k s = (case m s of (Inl e, s') \<Rightarrow> (Inl e, s') | (Inr v, s') \<Rightarrow> k v s')"

definition return :: "'a \<Rightarrow> 'a action" where
  "return v s = (Inr v, s)"

definition connect :: "faults \<Rightarrow> unit action" where
  "connect f = execute f Connect (\<lambda>s. (Inr (), s\<lparr>txn := stored s\<rparr>))"

definition commit :: "faults \<Rightarrow> unit action" where
  "commit f = execute f Commit (\<lambda>s. (Inr (), s\<lparr>stored := txn s\<rparr>))"

definition rollback :: "faults \<Rightarrow> unit action" where
  "rollback f = execute f Rollback (\<lambda>s. (Inr (), s\<lparr>txn := stored s\<rparr>))"

text \<open>Closing a connection discards what its transaction has not committed.\<close>

definition close :: "session \<Rightarrow> session" where
  "close s = (issue Close s)\<lparr>txn := stored s\<rparr>"

subsection \<open>Bulk inserts\<close>

text \<open>
  \<open>psycopg2.extras.execute_values\<close> sends the rows in pages of at most \<open>page_size = 100\<close>
  rows, one statement a page, and no statement for an empty list.
\<close>

function paginate :: "nat \<Rightarrow> 'a list \<Rightarrow> 'a list list" where
  "paginate n xs = (if xs = [] \<or> n = 0 then [] else take n xs # paginate n (drop n xs))"
  by pat_completeness auto
termination
  by (relation "measure (\<lambda>(n, xs). length xs)") auto

declare paginate.simps [simp del]

fun execute_pages :: "(nat \<Rightarrow> 'a list \<Rightarrow> unit action) \<Rightarrow> nat \<Rightarrow> 'a list list \<Rightarrow> unit action" where
  "execute_pages ins k [] s = (Inr (), s)"
| "execute_pages ins k (page # pages) s =
     (case ins k page s of
        (Inl e, s') \<Rightarrow> (Inl e, s')
      | (Inr _, s') \<Rightarrow> execute_pages ins (Suc k) pages s')"

definition execute_values :: "(nat \<Rightarrow> 'a list \<Rightarrow> unit action) \<Rightarrow> 'a list \<Rightarrow> unit action" where
  "execute_values ins argslist = execute_pages ins 0 (paginate 100 argslist)"

section \<open>Agricultural machinery: persistence\<close>

definition machinery_of :: "string \<Rightarrow> (nat \<times> machinery_row) list \<Rightarrow> (nat \<times> machinery_row) list" where
  "machinery_of hid t = filter (\<lambda>(i, r). holder_id r = hid) t"

definition select_count_machinery :: "faults \<Rightarrow> string \<Rightarrow> nat action" where
  "select_count_machinery f hid =
     execute f (Select Agricultural_machinery)
       (\<lambda>s. (Inr (length (machinery_of hid (agricultural_machinery (txn s)))), s))"

definition delete_machinery :: "faults \<Rightarrow> string \<Rightarrow> unit action" where
  "delete_machinery f hid =
     execute f (Delete Agricultural_machinery)
       (\<lambda>s. (Inr (), s\<lparr>txn := (txn s)\<lparr>agricultural_machinery :=
                 filter (\<lambda>(i, r). holder_id r \<noteq> hid) (agricultural_machinery (txn s))\<rparr>\<rparr>))"

definition insert_machinery :: "faults \<Rightarrow> nat \<Rightarrow> machinery_row list \<Rightarrow> unit action" where
  "insert_machinery f k rows =
     execute f (Insert Agricultural_machinery k)
       (\<lambda>s. (Inr (), s\<lparr>txn := (txn s)\<lparr>agricultural_machinery :=
                 agricultural_machinery (txn s)
                 @ zip [seq_machinery s ..< seq_machinery s + length rows] rows\<rparr>,
               seq_machinery := seq_machinery s + length rows\<rparr>))"

definition values_of :: "machinery_row \<Rightarrow> machinery_values" where
  "values_of r =
     \<lparr>has_item = has_item r, equipment_name = equipment_name r, quantity_new = quantity_new r,
      quantity_used = quantity_used r, quantity_out_of_service = quantity_out_of_service r,
      source = source r\<rparr>"

definition select_machinery :: "faults \<Rightarrow> string \<Rightarrow> machinery_values list action" where
  "select_machinery f hid =
     execute f (Select Agricultural_machinery)
       (\<lambda>s. (Inr (map (\<lambda>(i, r). values_of r)
                    (sort_key fst (machinery_of hid (agricultural_machinery (txn s))))), s))"

text \<open>\<open>get_connection\<close> of \<open>agricultural_machinery.py\<close>: \<open>False\<close> stands for \<open>None\<close>.\<close>

definition get_connection :: "faults \<Rightarrow> session \<Rightarrow> bool \<times> session" where
  "get_connection f s =
     (case connect f s of
        (Inl e, s') \<Rightarrow> (False, emit (Error Unable_to_connect) s')
      | (Inr _, s') \<Rightarrow> (True, s'))"

text \<open>The body of the \<open>try\<close> block of \<open>save_to_db\<close>.\<close>

definition save_to_db_try :: "faults \<Rightarrow> string \<Rightarrow> machinery_row list \<Rightarrow> bool action" where
  "save_to_db_try f hid machinery_data =
     and_then (select_count_machinery f hid) (\<lambda>count.
     and_then (if count > 0
               then (\<lambda>s. delete_machinery f hid (emit (Info Updating_existing_records) s))
               else return ()) (\<lambda>_.
     and_then (execute_values (insert_machinery f) machinery_data) (\<lambda>_.
     and_then (commit f) (\<lambda>_.
     return True))))"

text \<open>
  \<open>save_to_db\<close>. The handlers call \<open>conn.rollback()\<close> unprotected, so an exception raised by
  the rollback leaves the function; \<open>finally\<close> closes the connection on every path.
\<close>

definition save_to_db :: "faults \<Rightarrow> machinery_row list \<Rightarrow> bool action" where
  "save_to_db f machinery_data s =
     (case machinery_data of
        [] \<Rightarrow> (Inr False, emit (Warning No_data_to_save) s)
      | row0 # _ \<Rightarrow>
          (case get_connection f s of
             (False, s1) \<Rightarrow> (Inr False, s1)
           | (True, s1) \<Rightarrow>
               (case save_to_db_try f (holder_id row0) machinery_data s1 of
                  (Inr b, s2) \<Rightarrow> (Inr b, close s2)
                | (Inl e, s2) \<Rightarrow>
                    (case rollback f s2 of
                       (Inl e', s3) \<Rightarrow> (Inl e', close s3)
                     | (Inr _, s3) \<Rightarrow>
                         (Inr False,
                          close (emit (Error (case e of
                                                Psycopg2_Error \<Rightarrow> Database_error e
                                              | Other_Exception \<Rightarrow> Error_saving_data e)) s3))))))"

definition load_existing_data :: "faults \<Rightarrow> string \<Rightarrow> session \<Rightarrow> machinery_values list \<times> session" where
  "load_existing_data f hid s =
     (case get_connection f s of
        (False, s1) \<Rightarrow> ([], s1)
      | (True, s1) \<Rightarrow>
          (case select_machinery f hid s1 of
             (Inl e, s2) \<Rightarrow> ([], close s2)
           | (Inr existing_data, s2) \<Rightarrow> (existing_data, close s2)))"

text \<open>
  The \<open>if submitted:\<close> branch of \<open>agricultural_machinery_section\<close>: validate, save when the
  validation passed, report success when the save did.
\<close>

definition machinery_submit :: "faults \<Rightarrow> machinery_row list \<Rightarrow> unit action" where
  "machinery_submit f machinery_data s =
     (case validate_machinery_data machinery_data of
        (False, errs) \<Rightarrow> (Inr (), s\<lparr>ui := ui s @ errs\<rparr>)
      | (True, errs) \<Rightarrow>
          (case save_to_db f machinery_data (s\<lparr>ui := ui s @ errs\<rparr>) of
             (Inl e, s1) \<Rightarrow> (Inl e, s1)
           | (Inr False, s1) \<Rightarrow> (Inr (), s1)
           | (Inr True, s1) \<Rightarrow> (Inr (), emit Rerun (emit Balloons (emit (Success Machinery_saved) s1)))))"

section \<open>Survey progress\<close>

text \<open>
  \<open>with engine.begin() as conn\<close>: the block runs in a transaction that is committed when the
  block ends and rolled back when it raises; the exception is raised again.
  \<open>with engine.connect() as conn\<close> only opens and closes the connection.
\<close>

definition engine_begin :: "faults \<Rightarrow> 'a action \<Rightarrow> 'a action" where
  "engine_begin f body s =
     (case connect f s of
        (Inl e, s1) \<Rightarrow> (Inl e, s1)
      | (Inr _, s1) \<Rightarrow>
          (case body s1 of
             (Inl e, s2) \<Rightarrow>
               (case rollback f s2 of
                  (Inl e', s3) \<Rightarrow> (Inl e', close s3)
                | (Inr _, s3) \<Rightarrow> (Inl e, close s3))
           | (Inr v, s2) \<Rightarrow>
               (case commit f s2 of
                  (Inl e, s3) \<Rightarrow> (Inl e, close s3)
                | (Inr _, s3) \<Rightarrow> (Inr v, close s3))))"

definition engine_connect :: "faults \<Rightarrow> 'a action \<Rightarrow> 'a action" where
  "engine_connect f body s =
     (case connect f s of
        (Inl e, s1) \<Rightarrow> (Inl e, s1)
      | (Inr _, s1) \<Rightarrow> (case body s1 of (r, s2) \<Rightarrow> (r, close s2)))"

text \<open>\<open>fetchone()\<close> of a \<open>SELECT id\<close>: the id of the first matching row, or \<open>None\<close>.\<close>

definition fetchone_id :: "('r \<Rightarrow> nat) \<Rightarrow> 'r list \<Rightarrow> nat option" where
  "fetchone_id ident rows = (case rows of [] \<Rightarrow> None | r # _ \<Rightarrow> Some (ident r))"

definition select_progress_by_section_no :: "faults \<Rightarrow> int \<Rightarrow> int \<Rightarrow> nat option action" where
  "select_progress_by_section_no f hid sec =
     execute f (Select Holder_survey_progress)
       (\<lambda>s. (Inr (fetchone_id progress_id
                    (filter (\<lambda>r. progress_holder_id r = hid \<and> section_no r = Some sec)
                       (holder_survey_progress (txn s)))), s))"

definition select_progress_by_section_id :: "faults \<Rightarrow> int \<Rightarrow> int \<Rightarrow> nat option action" where
  "select_progress_by_section_id f hid sec =
     execute f (Select Holder_survey_progress)
       (\<lambda>s. (Inr (fetchone_id progress_id
                    (filter (\<lambda>r. progress_holder_id r = hid \<and> section_id r = Some sec)
                       (holder_survey_progress (txn s)))), s))"

definition update_progress_completed :: "faults \<Rightarrow> nat \<Rightarrow> unit action" where
  "update_progress_completed f i =
     execute f (Update Holder_survey_progress)
       (\<lambda>s. (Inr (), s\<lparr>txn := (txn s)\<lparr>holder_survey_progress :=
                 map (\<lambda>r. if progress_id r = i then r\<lparr>completed := True\<rparr> else r)
                   (holder_survey_progress (txn s))\<rparr>\<rparr>))"

text \<open>
  An \<open>INSERT\<close> into the progress table. \<open>sno = None\<close> says that the statement does not name
  the column \<open>section_no\<close>, which then shows what the table gives it for the \<open>section_id\<close>
  written; likewise \<open>sid\<close>.
\<close>

definition insert_progress :: "faults \<Rightarrow> int \<Rightarrow> int option \<Rightarrow> int option \<Rightarrow> unit action" where
  "insert_progress f hid sno sid =
     execute f (Insert Holder_survey_progress 0)
       (\<lambda>s. (Inr (), s\<lparr>txn := (txn s)\<lparr>holder_survey_progress :=
                 holder_survey_progress (txn s)
                 @ [\<lparr>progress_id = seq_progress s, progress_holder_id = hid,
                     section_no = (case sno of Some v \<Rightarrow> Some v
                                  | None \<Rightarrow> Option.bind sid (omitted_section_no s)),
                     section_id = (case sid of Some v \<Rightarrow> Some v
                                  | None \<Rightarrow> Option.bind sno (omitted_section_id s)),
                     completed = True\<rparr>]\<rparr>,
               seq_progress := seq_progress s + 1\<rparr>))"

text \<open>\<open>mark_section_complete\<close> of \<open>main_survey.py\<close>; the row is keyed by \<open>section_no\<close>.\<close>

definition mark_section_complete :: "faults \<Rightarrow> int \<Rightarrow> int \<Rightarrow> unit action" where
  "mark_section_complete f hid sec =
     engine_begin f
       (and_then (select_progress_by_section_no f hid sec) (\<lambda>exists.
          case exists of
            Some i \<Rightarrow> update_progress_completed f i
          | None \<Rightarrow> insert_progress f hid (Some sec) None))"







section \<open>Holding labour: save and next\<close>






section \<open>Land use: validation\<close>

text \<open>
  A row of the parcels data frame. \<open>st.data_editor\<close> is called with \<open>num_rows="dynamic"\<close>,
  so a row can have blank cells.
\<close>

record parcels_df_row =
  df_parcel_no :: "int cell"
  df_total_acres :: "real cell"
  df_developed_acres :: "real cell"
  df_tenure :: "string cell"
  df_use_of_land :: "string cell"
  df_irrigated_area :: "real cell"
  df_land_clearing :: "string cell"

definition append_if :: "bool \<Rightarrow> 'a \<Rightarrow> 'a list \<Rightarrow> 'a list" where
  "append_if cond x xs = (if cond then xs @ [x] else xs)"

definition validate_main_land_use :: "real \<Rightarrow> real \<Rightarrow> string list \<Rightarrow> int \<Rightarrow> string \<Rightarrow> land_error list" where
  "validate_main_land_use total_area' years_used' crop_methods' num_parcels' location' =
     (let errors = [];
          errors = append_if (total_area' \<le> 0) Total_area_not_positive errors;
          errors = append_if (years_used' < 0) Years_negative errors;
          errors = append_if (crop_methods' = []) No_crop_method errors;
          errors = append_if (num_parcels' < 1) Parcels_less_than_one errors;
          errors = append_if (strip location' = []) Location_empty errors;
          errors = append_if (length location' > 200) Location_too_long errors
      in errors)"

text \<open>
  One guarded append of \<open>validate_parcels\<close>: \<open>if cond: errors.append(err)\<close>, where evaluating
  \<open>cond\<close> can raise. Nothing is evaluated once an exception is on its way.
\<close>

definition append_error_if :: "exn + bool \<Rightarrow> land_error \<Rightarrow> exn + land_error list \<Rightarrow> exn + land_error list" where
  "append_error_if cond err acc =
     bind_exn acc (\<lambda>errors. bind_exn cond (\<lambda>b. Inr (append_if b err errors)))"

text \<open>
  The body of the loop of \<open>validate_parcels\<close>, from the list \<open>errors\<close> and the warnings shown
  so far to the list, or the exception raised, and the warnings shown.
\<close>

definition validate_parcel ::
  "parcels_df_row \<Rightarrow> land_error list \<times> ui_event list \<Rightarrow> (exn + land_error list) \<times> ui_event list" where
  "validate_parcel row acc =
     (let parcel_no' = df_parcel_no row;
          total_acres' = df_total_acres row;
          developed_acres' = df_developed_acres row;
          irrigated_area' = df_irrigated_area row;
          errors = Inr (fst acc);
          errors = append_error_if (cell_lt total_acres' (Value 0)) (Total_acres_negative parcel_no') errors;
          errors = append_error_if (cell_lt developed_acres' (Value 0))
                     (Developed_acres_negative parcel_no') errors;
          errors = append_error_if (cell_lt irrigated_area' (Value 0))
                     (Irrigated_area_negative parcel_no') errors;
          errors = append_error_if (cell_gt developed_acres' total_acres')
                     (Developed_exceeds_total parcel_no') errors
      in case errors of
           Inl e \<Rightarrow> (Inl e, snd acc)
         | Inr errors' \<Rightarrow>
             (case cell_gt irrigated_area' total_acres' of
                Inl e \<Rightarrow> (Inl e, snd acc)
              | Inr b \<Rightarrow> (Inr errors',
                           append_if b (Warning (Irrigated_exceeds_total parcel_no')) (snd acc))))"

fun validate_parcels_loop ::
  "parcels_df_row list \<Rightarrow> land_error list \<times> ui_event list \<Rightarrow> (exn + land_error list) \<times> ui_event list" where
  "validate_parcels_loop [] acc = (Inr (fst acc), snd acc)"
| "validate_parcels_loop (row # rows) acc =
     (case validate_parcel row acc of
        (Inl e, warnings) \<Rightarrow> (Inl e, warnings)
      | (Inr errors, warnings) \<Rightarrow> validate_parcels_loop rows (errors, warnings))"

definition validate_parcels :: "parcels_df_row list \<Rightarrow> (exn + land_error list) \<times> ui_event list" where
  "validate_parcels parcels_df = validate_parcels_loop parcels_df ([], [])"

section \<open>Land use: persistence\<close>

definition land_use_get_connection :: "faults \<Rightarrow> session \<Rightarrow> bool \<times> session" where
  "land_use_get_connection f s =
     (case connect f s of
        (Inl e, s') \<Rightarrow> (False, emit (Error (Database_connection_error e)) s')
      | (Inr _, s') \<Rightarrow> (True, s'))"

definition select_land_use_id :: "faults \<Rightarrow> int \<Rightarrow> nat option action" where
  "select_land_use_id f hid =
     execute f (Select Land_use)
       (\<lambda>s. (Inr (fetchone_id land_use_id
                    (filter (\<lambda>r. land_use_holder_id r = hid) (land_use (txn s)))), s))"

definition update_land_use :: "faults \<Rightarrow> nat \<Rightarrow> land_use_data \<Rightarrow> unit action" where
  "update_land_use f lid d =
     execute f (Update Land_use)
       (\<lambda>s. (Inr (), s\<lparr>txn := (txn s)\<lparr>land_use :=
                 map (\<lambda>r. if land_use_id r = lid
                           then r\<lparr>total_area := total_area d, years_used := years_used d,
                                  main_purpose := main_purpose d, num_parcels := num_parcels d,
                                  location := location d, crop_methods := crop_methods d\<rparr>
                           else r)
                   (land_use (txn s))\<rparr>\<rparr>))"

definition delete_parcels :: "faults \<Rightarrow> nat \<Rightarrow> unit action" where
  "delete_parcels f lid =
     execute f (Delete Land_use_parcels)
       (\<lambda>s. (Inr (), s\<lparr>txn := (txn s)\<lparr>land_use_parcels :=
                 filter (\<lambda>(l, p). l \<noteq> lid) (land_use_parcels (txn s))\<rparr>\<rparr>))"

text \<open>\<open>INSERT ... RETURNING id\<close>: the action returns the new id.\<close>

definition insert_land_use :: "faults \<Rightarrow> int \<Rightarrow> land_use_data \<Rightarrow> nat action" where
  "insert_land_use f hid d =
     execute f (Insert Land_use 0)
       (\<lambda>s. (Inr (seq_land_use s),
              s\<lparr>txn := (txn s)\<lparr>land_use :=
                   land_use (txn s)
                   @ [\<lparr>total_area = total_area d, years_used = years_used d,
                       main_purpose = main_purpose d, num_parcels = num_parcels d,
                       location = location d, crop_methods = crop_methods d,
                       land_use_id = seq_land_use s, land_use_holder_id = hid\<rparr>]\<rparr>,
                 seq_land_use := seq_land_use s + 1\<rparr>))"

text \<open>
  One statement of the bulk insert into \<open>land_use_parcels\<close>. The table is declared
  \<open>UNIQUE(land_use_id, parcel_no)\<close>: a statement that would break it raises and inserts
  nothing. Other failures of a statement are left to \<open>faults\<close>.
\<close>

definition insert_parcels :: "faults \<Rightarrow> nat \<Rightarrow> nat \<Rightarrow> parcel list \<Rightarrow> unit action" where
  "insert_parcels f lid k page =
     execute f (Insert Land_use_parcels k)
       (\<lambda>s. let t = land_use_parcels (txn s) @ map (Pair lid) page
             in if distinct (map (\<lambda>(l, p). (l, parcel_no p)) t)
                then (Inr (), s\<lparr>txn := (txn s)\<lparr>land_use_parcels := t\<rparr>\<rparr>)
                else (Inl Psycopg2_Error, s))"

text \<open>The body of the \<open>with conn.cursor() as cur\<close> block of \<open>save_land_use_to_db\<close>.\<close>

definition save_land_use_try :: "faults \<Rightarrow> land_use_data \<Rightarrow> int \<Rightarrow> bool action" where
  "save_land_use_try f d hid =
     and_then (select_land_use_id f hid) (\<lambda>existing.
     and_then (case existing of
                 Some lid \<Rightarrow> and_then (update_land_use f lid d) (\<lambda>_.
                             and_then (delete_parcels f lid) (\<lambda>_. return lid))
               | None \<Rightarrow> insert_land_use f hid d) (\<lambda>lid.
     and_then (execute_values (insert_parcels f lid) (parcels d)) (\<lambda>_.
     and_then (commit f) (\<lambda>_.
     (\<lambda>s. (Inr True, emit (Success Land_use_saved) s))))))"

definition save_land_use_to_db :: "faults \<Rightarrow> land_use_data \<Rightarrow> int \<Rightarrow> bool action" where
  "save_land_use_to_db f d hid s =
     (case land_use_get_connection f s of
        (False, s1) \<Rightarrow> (Inr False, emit (Error Cannot_connect) s1)
      | (True, s1) \<Rightarrow>
          (case save_land_use_try f d hid s1 of
             (Inr b, s2) \<Rightarrow> (Inr b, close s2)
           | (Inl e, s2) \<Rightarrow>
               (case rollback f s2 of
                  (Inl e', s3) \<Rightarrow> (Inl e', close s3)
                | (Inr _, s3) \<Rightarrow> (Inr False, close (emit (Error (Error_saving_land_use e)) s3)))))"

subsection \<open>The submitted form\<close>

definition lower_char :: "char \<Rightarrow> char" where
  "lower_char c =
     (let n = of_char c :: nat
      in if (65 \<le> n \<and> n \<le> 90) \<or> (192 \<le> n \<and> n \<le> 222 \<and> n \<noteq> 215) then char_of (n + 32) else c)"

definition lower :: "string \<Rightarrow> string" where
  "lower s = map lower_char s"

definition replace_char_by :: "char \<Rightarrow> string \<Rightarrow> string \<Rightarrow> string" where
  "replace_char_by a new s = concat (map (\<lambda>c. if c = a then new else [c]) s)"

text \<open>
  One dictionary of \<open>parcels_list\<close>; its values are evaluated in the order of the source, and
  the first conversion that raises ends the evaluation.
\<close>

definition parcel_of_df_row :: "parcels_df_row \<Rightarrow> exn + parcel" where
  "parcel_of_df_row row =
     bind_exn (py_int (df_parcel_no row)) (\<lambda>parcel_no'.
     bind_exn (py_float (df_total_acres row)) (\<lambda>total_acres'.
     bind_exn (py_float (df_developed_acres row)) (\<lambda>developed_acres'.
     bind_exn (str_of_cell (df_tenure row)) (\<lambda>tenure'.
     bind_exn (str_of_cell (df_use_of_land row)) (\<lambda>use_of_land'.
     bind_exn (py_float (df_irrigated_area row)) (\<lambda>irrigated_area'.
     bind_exn (str_of_cell (df_land_clearing row)) (\<lambda>land_clearing'.
     Inr \<lparr>parcel_no = parcel_no',
          total_acres = total_acres',
          developed_acres = developed_acres',
          tenure = replace_char_by (CHR ''&'') ''and''
                     (replace_char (CHR ''/'') (CHR ''_'')
                        (replace_char (CHR '' '') (CHR ''_'') (lower tenure'))),
          use_of_land = replace_char_by (CHR ''&'') ''and''
                          (replace_char (CHR ''/'') (CHR ''_'')
                             (replace_char (CHR '' '') (CHR ''_'') (lower use_of_land'))),
          irrigated_area = irrigated_area',
          land_clearing = replace_char (CHR '' '') (CHR ''_'') (lower land_clearing')\<rparr>)))))))"

fun parcels_list_of :: "parcels_df_row list \<Rightarrow> exn + parcel list" where
  "parcels_list_of [] = Inr []"
| "parcels_list_of (row # rows) =
     bind_exn (parcel_of_df_row row) (\<lambda>p.
     bind_exn (parcels_list_of rows) (\<lambda>ps. Inr (p # ps)))"

text \<open>
  The \<open>if submitted:\<close> branch of \<open>land_use_section\<close> with the \<open>return False\<close> that follows it;
  \<open>form\<close> holds the widget values. Nothing in the branch catches an exception that
  \<open>validate_parcels\<close> or the conversion of the rows raises.
\<close>

definition land_use_submit :: "faults \<Rightarrow> land_use_values \<Rightarrow> parcels_df_row list \<Rightarrow> int \<Rightarrow> bool action" where
  "land_use_submit f form edited_df hid s =
     (let main_errors = validate_main_land_use (total_area form) (years_used form)
                          (crop_methods form) (num_parcels form) (location form);
          (validated, warnings) = validate_parcels edited_df;
          s0 = s\<lparr>ui := ui s @ warnings\<rparr>
      in case validated of
           Inl e \<Rightarrow> (Inl e, s0)
         | Inr parcel_errors \<Rightarrow>
             (let all_errors = main_errors @ parcel_errors
              in if all_errors \<noteq> []
                 then (Inr False, s0\<lparr>ui := ui s0 @ map (\<lambda>e. Error (Land_use_error e)) all_errors\<rparr>)
                 else
                   (case parcels_list_of edited_df of
                      Inl e \<Rightarrow> (Inl e, s0)
                    | Inr parcels_list \<Rightarrow>
                        (let land_use_data =
                               \<lparr>total_area = total_area form, years_used = years_used form,
                                main_purpose = main_purpose form, num_parcels = num_parcels form,
                                location = location form, crop_methods = crop_methods form,
                                parcels = parcels_list\<rparr>
                         in case save_land_use_to_db f land_use_data hid s0 of
                              (Inl e, s1) \<Rightarrow> (Inl e, s1)
                            | (Inr True, s1) \<Rightarrow> (Inr True, emit Balloons s1)
                            | (Inr False, s1) \<Rightarrow> (Inr False, s1)))))"

section \<open>Example data\<close>

text \<open>Concrete rows and an empty database, for evaluating the functions.\<close>

abbreviation empty_tables :: tables where
  "empty_tables \<equiv> \<lparr>agricultural_machinery = [], holder_survey_progress = [], land_use = [],
                    land_use_parcels = [], holding_labour = []\<rparr>"

abbreviation empty_session :: session where
  "empty_session \<equiv> \<lparr>stored = empty_tables, txn = empty_tables, seq_machinery = 1, seq_progress = 1,
                     seq_land_use = 1, seq_labour = 1, omitted_section_no = null_column,
                     omitted_section_id = null_column, ui = [], trace = []\<rparr>"

abbreviation machinery_example :: "string \<Rightarrow> string \<Rightarrow> string \<Rightarrow> int \<Rightarrow> int \<Rightarrow> int \<Rightarrow> machinery_row" where
  "machinery_example h yn name a b c \<equiv>
     \<lparr>has_item = yn, equipment_name = name, quantity_new = a, quantity_used = b,
      quantity_out_of_service = c, source = ''O'', holder_id = h\<rparr>"

abbreviation parcel_example :: "int \<Rightarrow> real \<Rightarrow> real \<Rightarrow> real \<Rightarrow> parcel" where
  "parcel_example n t d i \<equiv>
     \<lparr>parcel_no = n, total_acres = Float t, developed_acres = Float d, tenure = ''privately_owned'',
      use_of_land = ''temporary_crops'', irrigated_area = Float i, land_clearing = ''regenerative''\<rparr>"

abbreviation land_use_example :: "parcel list \<Rightarrow> land_use_data" where
  "land_use_example ps \<equiv>
     \<lparr>total_area = 10, years_used = 3, main_purpose = ''For Sale Only/Commercial'', num_parcels = 2,
      location = ''Andros'', crop_methods = [''Open Field''], parcels = ps\<rparr>"

abbreviation stored_tables_example :: tables where
  "stored_tables_example \<equiv>
     \<lparr>agricultural_machinery = [(1, machinery_example ''42'' ''Y'' ''Tractor'' 1 0 0)],
      holder_survey_progress = [],
      land_use = [\<lparr>total_area = 5, years_used = 1, main_purpose = ''For Sale Only/Commercial'',
                   num_parcels = 1, location = ''Andros'', crop_methods = [''Open Field''],
                   land_use_id = 1, land_use_holder_id = 7\<rparr>],
      land_use_parcels = [(1, parcel_example 1 5 2 0)],
      holding_labour = []\<rparr>"

abbreviation session_example :: session where
  "session_example \<equiv> \<lparr>stored = stored_tables_example, txn = stored_tables_example, seq_machinery = 2,
                       seq_progress = 1, seq_land_use = 2, seq_labour = 1,
                       omitted_section_no = null_column, omitted_section_id = null_column, ui = [], trace = []\<rparr>"

abbreviation insert_fails :: faults where
  "insert_fails \<equiv> (\<lambda>k. if k = Insert Agricultural_machinery 0 then Some Psycopg2_Error else None)"

abbreviation df_row_example :: "int \<Rightarrow> real cell \<Rightarrow> real cell \<Rightarrow> real cell \<Rightarrow> parcels_df_row" where
  "df_row_example n t d i \<equiv>
     \<lparr>df_parcel_no = Value n, df_total_acres = t, df_developed_acres = d,
      df_tenure = Value ''Privately Owned'', df_use_of_land = Value ''Temporary Crops'',
      df_irrigated_area = i, df_land_clearing = Value ''Regenerative''\<rparr>"

abbreviation form_example :: land_use_values where
  "form_example \<equiv>
     \<lparr>total_area = 10, years_used = 3, main_purpose = ''For Sale Only/Commercial'', num_parcels = 1,
      location = ''Andros'', crop_methods = [''Open Field'']\<rparr>"



section \<open>Lemmas: strings and the machinery validator\<close>

lemma contains_set: "contains sub s \<Longrightarrow> set sub \<subseteq> set s"
proof (induction s)
  case Nil
  then show ?case by simp
next
  case (Cons c cs)
  show ?case
  proof (cases "startswith (c # cs) sub")
    case True
    then have "sub = take (length sub) (c # cs)" by (simp add: startswith_def)
    then have "set sub \<subseteq> set (c # cs)" by (metis set_take_subset)
    then show ?thesis .
  next
    case False
    with Cons show ?thesis by auto
  qed
qed

lemma strip_Nil_iff: "strip s = [] \<longleftrightarrow> (\<forall>c\<in>set s. isspace c)"
proof
  assume "strip s = []"
  then have a: "\<forall>c\<in>set (dropWhile isspace s). isspace c"
    by (simp add: strip_def dropWhile_eq_Nil_conv)
  have "dropWhile isspace s = []"
  proof (rule ccontr)
    assume "dropWhile isspace s \<noteq> []"
    then have "\<not> isspace (hd (dropWhile isspace s))" "hd (dropWhile isspace s) \<in> set (dropWhile isspace s)"
      by (simp_all add: hd_dropWhile)
    with a show False by blast
  qed
  then show "\<forall>c\<in>set s. isspace c" by (simp add: dropWhile_eq_Nil_conv)
next
  assume "\<forall>c\<in>set s. isspace c"
  then have e: "dropWhile isspace s = []" using dropWhile_eq_Nil_conv by blast
  show "strip s = []" by (simp only: strip_def e rev.simps dropWhile.simps)
qed

lemma not_isspace_O: "\<not> isspace (CHR ''O'')"
  by (simp add: isspace_def)

lemma open_entry_guard_False: "\<not> open_entry_guard name"
proof
  assume "open_entry_guard name"
  then have c: "contains ''Open Entry'' name" and s: "strip name = []"
    by (simp_all add: open_entry_guard_def)
  from c have "CHR ''O'' \<in> set name" using contains_set by fastforce
  with s show False using strip_Nil_iff not_isspace_O by blast
qed


lemma report_if_split:
  "report_if c m acc = (fst acc \<and> \<not> c, snd acc @ (if c then [Error m] else []))"
  by (cases acc) (simp add: report_if_def)

lemma validate_row_acc:
  "validate_row i row acc =
     (fst acc \<and> fst (validate_row i row (True, [])), snd acc @ snd (validate_row i row (True, [])))"
  by (simp add: validate_row_def Let_def report_if_split)

lemma validate_row_fst:
  "fst (validate_row i row (True, [])) =
     (length (equipment_name row) \<le> 100 \<and>
      (has_item row = ''Y'' \<longrightarrow>
         quantity_new row + quantity_used row + quantity_out_of_service row \<noteq> 0) \<and>
      0 \<le> quantity_new row \<and> quantity_new row \<le> 20 \<and>
      0 \<le> quantity_used row \<and> quantity_used row \<le> 20 \<and>
      0 \<le> quantity_out_of_service row \<and> quantity_out_of_service row \<le> 20)"
  by (auto simp add: validate_row_def Let_def report_if_split qty_value_def open_entry_guard_False)

lemma validate_loop_acc:
  "validate_loop i rows acc =
     (fst acc \<and> fst (validate_loop i rows (True, [])), snd acc @ snd (validate_loop i rows (True, [])))"
proof (induction rows arbitrary: i acc)
  case Nil
  then show ?case by simp
next
  case (Cons row rows)
  let ?L = "validate_loop (Suc i) rows (True, [])"
  let ?R = "validate_row i row (True, [])"
  have 1: "validate_loop i (row # rows) acc =
           (fst (validate_row i row acc) \<and> fst ?L, snd (validate_row i row acc) @ snd ?L)"
    using Cons.IH [of "Suc i" "validate_row i row acc"] by simp
  have 2: "validate_loop i (row # rows) (True, []) = (fst ?R \<and> fst ?L, snd ?R @ snd ?L)"
    using Cons.IH [of "Suc i" ?R] by simp
  have 3: "fst (validate_row i row acc) = (fst acc \<and> fst ?R)"
          "snd (validate_row i row acc) = snd acc @ snd ?R"
    using validate_row_acc [of i row acc] by simp_all
  show ?case unfolding 1 2 3 by simp
qed

lemma validate_loop_fst:
  "fst (validate_loop i rows (True, [])) =
     (\<forall>r\<in>set rows. (length (equipment_name r) \<le> 100 \<and>
        (has_item r = ''Y'' \<longrightarrow>
           quantity_new r + quantity_used r + quantity_out_of_service r \<noteq> 0) \<and>
        0 \<le> quantity_new r \<and> quantity_new r \<le> 20 \<and>
        0 \<le> quantity_used r \<and> quantity_used r \<le> 20 \<and>
        0 \<le> quantity_out_of_service r \<and> quantity_out_of_service r \<le> 20))"
proof (induction rows arbitrary: i)
  case Nil
  then show ?case by simp
next
  case (Cons row rows)
  have "fst (validate_loop i (row # rows) (True, [])) =
        (fst (validate_row i row (True, [])) \<and> fst (validate_loop (Suc i) rows (True, [])))"
    by (simp, subst validate_loop_acc, simp)
  then show ?case by (simp add: Cons.IH validate_row_fst)
qed

lemma validate_ok_iff:
  "fst (validate_machinery_data rows) =
     (\<forall>r\<in>set rows. (length (equipment_name r) \<le> 100 \<and>
        (has_item r = ''Y'' \<longrightarrow>
           quantity_new r + quantity_used r + quantity_out_of_service r \<noteq> 0) \<and>
        0 \<le> quantity_new r \<and> quantity_new r \<le> 20 \<and>
        0 \<le> quantity_used r \<and> quantity_used r \<le> 20 \<and>
        0 \<le> quantity_out_of_service r \<and> quantity_out_of_service r \<le> 20))"
  by (simp add: validate_machinery_data_def validate_loop_fst)

section \<open>Lemmas: statements, transactions and the machinery table\<close>

lemma execute_None: "f k = None \<Longrightarrow> execute f k run s = run (issue k s)"
  by (simp add: execute_def)

lemma execute_Some: "f k = Some e \<Longrightarrow> execute f k run s = (Inl e, issue k s)"
  by (simp add: execute_def)

lemma paginate_concat: "0 < n \<Longrightarrow> concat (paginate n xs) = xs"
proof (induction n xs rule: paginate.induct)
  case (1 n xs)
  show ?case
  proof (cases "xs = []")
    case True
    then show ?thesis by (simp add: paginate.simps)
  next
    case False
    with 1 have "concat (paginate n (drop n xs)) = drop n xs" by simp
    with False 1 show ?thesis by (subst paginate.simps) simp
  qed
qed

lemma zip_upt_append:
  "length xs = n \<Longrightarrow> zip [a ..< a + n] xs @ zip [a + n ..< a + n + m] ys = zip [a ..< a + n + m] (xs @ ys)"
proof -
  assume n: "length xs = n"
  have "[a ..< a + n + m] = [a ..< a + n] @ [a + n ..< a + n + m]"
    by (metis le_add1 upt_add_eq_append)
  then show ?thesis using n by (simp add: zip_append)
qed

lemma insert_machinery_Some:
  "f (Insert Agricultural_machinery k) = Some e \<Longrightarrow>
   insert_machinery f k rows s = (Inl e, issue (Insert Agricultural_machinery k) s)"
  by (simp add: insert_machinery_def execute_Some)

lemma insert_machinery_None:
  "f (Insert Agricultural_machinery k) = None \<Longrightarrow>
   insert_machinery f k rows s =
     (Inr (), (issue (Insert Agricultural_machinery k) s)\<lparr>txn := (txn s)\<lparr>agricultural_machinery :=
                 agricultural_machinery (txn s)
                 @ zip [seq_machinery s ..< seq_machinery s + length rows] rows\<rparr>,
               seq_machinery := seq_machinery s + length rows\<rparr>)"
  by (simp add: insert_machinery_def execute_None issue_def)

lemma execute_pages_machinery_Inr:
  "execute_pages (insert_machinery f) k pages s = (Inr u, s') \<Longrightarrow>
     agricultural_machinery (txn s') =
       agricultural_machinery (txn s)
       @ zip [seq_machinery s ..< seq_machinery s + length (concat pages)] (concat pages) \<and>
     holder_survey_progress (txn s') = holder_survey_progress (txn s) \<and>
     land_use (txn s') = land_use (txn s) \<and>
     land_use_parcels (txn s') = land_use_parcels (txn s) \<and>
     holding_labour (txn s') = holding_labour (txn s) \<and>
     (\<forall>j < length pages. f (Insert Agricultural_machinery (k + j)) = None)"
proof (induction pages arbitrary: k s)
  case Nil
  then show ?case by simp
next
  case (Cons page pages)
  show ?case
  proof (cases "f (Insert Agricultural_machinery k)")
    case (Some e)
    with Cons.prems show ?thesis by (simp add: insert_machinery_Some)
  next
    case None
    define s1 where "s1 = (issue (Insert Agricultural_machinery k) s)\<lparr>txn := (txn s)\<lparr>agricultural_machinery :=
                 agricultural_machinery (txn s)
                 @ zip [seq_machinery s ..< seq_machinery s + length page] page\<rparr>,
               seq_machinery := seq_machinery s + length page\<rparr>"
    have step: "insert_machinery f k page s = (Inr (), s1)"
      using None by (simp add: insert_machinery_None s1_def)
    with Cons.prems have rest: "execute_pages (insert_machinery f) (Suc k) pages s1 = (Inr u, s')"
      by simp
    note ih = Cons.IH [OF rest]
    have t: "agricultural_machinery (txn s1) = agricultural_machinery (txn s)
                 @ zip [seq_machinery s ..< seq_machinery s + length page] page"
         "seq_machinery s1 = seq_machinery s + length page"
         "holder_survey_progress (txn s1) = holder_survey_progress (txn s)"
         "land_use (txn s1) = land_use (txn s)"
         "land_use_parcels (txn s1) = land_use_parcels (txn s)"
         "holding_labour (txn s1) = holding_labour (txn s)"
      by (simp_all add: s1_def issue_def)
    have z: "zip [seq_machinery s ..< seq_machinery s + length page] page
             @ zip [seq_machinery s + length page ..< seq_machinery s + length page + length (concat pages)] (concat pages)
           = zip [seq_machinery s ..< seq_machinery s + length page + length (concat pages)] (page @ concat pages)"
      by (rule zip_upt_append) simp
    have idx: "\<forall>j < length (page # pages). f (Insert Agricultural_machinery (k + j)) = None"
    proof (intro allI impI)
      fix j assume "j < length (page # pages)"
      show "f (Insert Agricultural_machinery (k + j)) = None"
      proof (cases j)
        case 0
        then show ?thesis using None by simp
      next
        case (Suc j')
        with \<open>j < length (page # pages)\<close> have "j' < length pages" by simp
        with ih have "f (Insert Agricultural_machinery (Suc k + j')) = None" by blast
        then show ?thesis using Suc by simp
      qed
    qed
    from ih t z idx show ?thesis by (simp add: add.assoc)
  qed
qed

lemma execute_pages_machinery_stored:
  "stored (snd (execute_pages (insert_machinery f) k pages s)) = stored s"
proof (induction pages arbitrary: k s)
  case Nil
  then show ?case by simp
next
  case (Cons page pages)
  show ?case
  proof (cases "f (Insert Agricultural_machinery k)")
    case (Some e)
    then show ?thesis by (simp add: insert_machinery_Some issue_def)
  next
    case None
    then show ?thesis by (simp add: insert_machinery_None issue_def Cons.IH)
  qed
qed



lemma stored_simps [simp]:
  "stored (issue k s) = stored s" "stored (emit ev s) = stored s" "stored (close s) = stored s"
  "txn (issue k s) = txn s" "txn (emit ev s) = txn s" "txn (close s) = stored s"
  "seq_machinery (issue k s) = seq_machinery s" "seq_machinery (emit ev s) = seq_machinery s"
  "seq_machinery (close s) = seq_machinery s"
  by (simp_all add: issue_def emit_def close_def)

lemma select_count_machinery_result:
  "select_count_machinery f h s = (r, s') \<Longrightarrow>
     s' = issue (Select Agricultural_machinery) s \<and>
     (case r of Inl e \<Rightarrow> f (Select Agricultural_machinery) = Some e
      | Inr n \<Rightarrow> f (Select Agricultural_machinery) = None \<and>
                 n = length (machinery_of h (agricultural_machinery (txn s))))"
  by (cases "f (Select Agricultural_machinery)")
     (auto simp add: select_count_machinery_def execute_def)

lemma delete_machinery_result:
  "delete_machinery f h s = (r, s') \<Longrightarrow>
     (case r of
        Inl e \<Rightarrow> f (Delete Agricultural_machinery) = Some e \<and> s' = issue (Delete Agricultural_machinery) s
      | Inr u \<Rightarrow> f (Delete Agricultural_machinery) = None \<and>
          s' = (issue (Delete Agricultural_machinery) s)\<lparr>txn := (txn s)\<lparr>agricultural_machinery :=
                 filter (\<lambda>(i, r). holder_id r \<noteq> h) (agricultural_machinery (txn s))\<rparr>\<rparr>)"
  by (cases "f (Delete Agricultural_machinery)")
     (auto simp add: delete_machinery_def execute_def issue_def)

lemma commit_result:
  "commit f s = (r, s') \<Longrightarrow>
     (case r of
        Inl e \<Rightarrow> f Commit = Some e \<and> s' = issue Commit s
      | Inr u \<Rightarrow> f Commit = None \<and> s' = (issue Commit s)\<lparr>stored := txn s\<rparr>)"
  by (cases "f Commit") (auto simp add: commit_def execute_def issue_def)

lemma rollback_result:
  "rollback f s = (r, s') \<Longrightarrow>
     (case r of
        Inl e \<Rightarrow> f Rollback = Some e \<and> s' = issue Rollback s
      | Inr u \<Rightarrow> f Rollback = None \<and> s' = (issue Rollback s)\<lparr>txn := stored s\<rparr>)"
  by (cases "f Rollback") (auto simp add: rollback_def execute_def issue_def)

lemma save_to_db_try_Inl:
  assumes "save_to_db_try f h rows s = (Inl e, s')"
  shows "stored s' = stored s"
proof -
  obtain r1 s1 where 1: "select_count_machinery f h s = (r1, s1)" by fastforce
  note a1 = select_count_machinery_result [OF 1]
  show ?thesis
  proof (cases r1)
    case (Inl e1)
    with assms 1 a1 show ?thesis by (auto simp add: save_to_db_try_def and_then_def)
  next
    case (Inr n)
    define pre where "pre = (if n > 0
               then (\<lambda>s. delete_machinery f h (emit (Info Updating_existing_records) s))
               else return ())"
    obtain r2 s2 where 2: "pre s1 = (r2, s2)" by fastforce
    have st2: "stored s2 = stored s"
    proof (cases "n > 0")
      case True
      with 2 have "delete_machinery f h (emit (Info Updating_existing_records) s1) = (r2, s2)"
        by (simp add: pre_def)
      from delete_machinery_result [OF this] a1 show ?thesis by (cases r2) simp_all
    next
      case False
      with 2 a1 show ?thesis by (auto simp add: pre_def return_def)
    qed
    show ?thesis
    proof (cases r2)
      case (Inl e2)
      with assms 1 Inr 2 st2 show ?thesis
        by (auto simp add: save_to_db_try_def and_then_def pre_def [symmetric])
    next
      case r2: (Inr u2)
      obtain r3 s3 where 3: "execute_values (insert_machinery f) rows s2 = (r3, s3)" by fastforce
      have st3: "stored s3 = stored s"
        using execute_pages_machinery_stored [of f 0 "paginate 100 rows" s2] 3 st2
        by (simp add: execute_values_def)
      show ?thesis
      proof (cases r3)
        case (Inl e3)
        with assms 1 Inr 2 r2 3 st3 show ?thesis
          by (auto simp add: save_to_db_try_def and_then_def pre_def [symmetric])
      next
        case r3: (Inr u3)
        obtain r4 s4 where 4: "commit f s3 = (r4, s4)" by fastforce
        note a4 = commit_result [OF 4]
        show ?thesis
        proof (cases r4)
          case (Inl e4)
          with assms 1 Inr 2 r2 3 r3 4 a4 st3 show ?thesis
            by (auto simp add: save_to_db_try_def and_then_def pre_def [symmetric])
        next
          case r4: (Inr u4)
          with assms 1 Inr 2 r2 3 r3 4 show ?thesis
            by (auto simp add: save_to_db_try_def and_then_def pre_def [symmetric] return_def)
        qed
      qed
    qed
  qed
qed


lemma machinery_of_empty_filter:
  "machinery_of h t = [] \<Longrightarrow> filter (\<lambda>(i, r). holder_id r \<noteq> h) t = t"
  by (induction t) (auto simp add: machinery_of_def split: if_splits)

lemma save_to_db_try_Inr:
  assumes "save_to_db_try f h rows s = (Inr b, s')"
  shows "b = True \<and>
     agricultural_machinery (stored s') =
       filter (\<lambda>(i, r). holder_id r \<noteq> h) (agricultural_machinery (txn s))
       @ zip [seq_machinery s ..< seq_machinery s + length rows] rows \<and>
     holder_survey_progress (stored s') = holder_survey_progress (txn s) \<and>
     land_use (stored s') = land_use (txn s) \<and>
     land_use_parcels (stored s') = land_use_parcels (txn s) \<and>
     holding_labour (stored s') = holding_labour (txn s) \<and>
     f (Select Agricultural_machinery) = None \<and>
     (machinery_of h (agricultural_machinery (txn s)) \<noteq> [] \<longrightarrow> f (Delete Agricultural_machinery) = None) \<and>
     (\<forall>j < length (paginate 100 rows). f (Insert Agricultural_machinery j) = None) \<and>
     f Commit = None"
proof -
  obtain r1 s1 where 1: "select_count_machinery f h s = (r1, s1)" by fastforce
  note a1 = select_count_machinery_result [OF 1]
  from assms 1 obtain n where r1: "r1 = Inr n"
    by (cases r1) (auto simp add: save_to_db_try_def and_then_def)
  from a1 r1 have n: "n = length (machinery_of h (agricultural_machinery (txn s)))"
    and f1: "f (Select Agricultural_machinery) = None" and s1: "s1 = issue (Select Agricultural_machinery) s"
    by simp_all
  define pre where "pre = (if n > 0
             then (\<lambda>s. delete_machinery f h (emit (Info Updating_existing_records) s))
             else return ())"
  obtain r2 s2 where 2: "pre s1 = (r2, s2)" by fastforce
  from assms 1 r1 2 obtain u2 where r2: "r2 = Inr u2"
    by (cases r2) (auto simp add: save_to_db_try_def and_then_def pre_def [symmetric])
  have t2: "agricultural_machinery (txn s2) = filter (\<lambda>(i, r). holder_id r \<noteq> h) (agricultural_machinery (txn s))
            \<and> holder_survey_progress (txn s2) = holder_survey_progress (txn s)
            \<and> land_use (txn s2) = land_use (txn s)
            \<and> land_use_parcels (txn s2) = land_use_parcels (txn s)
            \<and> holding_labour (txn s2) = holding_labour (txn s)
            \<and> seq_machinery s2 = seq_machinery s
            \<and> (machinery_of h (agricultural_machinery (txn s)) \<noteq> [] \<longrightarrow> f (Delete Agricultural_machinery) = None)"
  proof (cases "n > 0")
    case True
    with 2 r2 have "delete_machinery f h (emit (Info Updating_existing_records) s1) = (Inr u2, s2)"
      by (simp add: pre_def)
    from delete_machinery_result [OF this] s1 show ?thesis by simp
  next
    case False
    with n have e: "machinery_of h (agricultural_machinery (txn s)) = []" by simp
    from False 2 s1 have "s2 = issue (Select Agricultural_machinery) s"
      by (auto simp add: pre_def return_def)
    with e show ?thesis by (simp add: machinery_of_empty_filter)
  qed
  obtain r3 s3 where 3: "execute_values (insert_machinery f) rows s2 = (r3, s3)" by fastforce
  from assms 1 r1 2 r2 3 obtain u3 where r3: "r3 = Inr u3"
    by (cases r3) (auto simp add: save_to_db_try_def and_then_def pre_def [symmetric])
  from 3 r3 have "execute_pages (insert_machinery f) 0 (paginate 100 rows) s2 = (Inr u3, s3)"
    by (simp add: execute_values_def)
  from execute_pages_machinery_Inr [OF this]
  have t3: "agricultural_machinery (txn s3) =
       agricultural_machinery (txn s2) @ zip [seq_machinery s2 ..< seq_machinery s2 + length rows] rows"
       "holder_survey_progress (txn s3) = holder_survey_progress (txn s2)"
       "land_use (txn s3) = land_use (txn s2)"
       "land_use_parcels (txn s3) = land_use_parcels (txn s2)"
       "holding_labour (txn s3) = holding_labour (txn s2)"
       "\<forall>j < length (paginate 100 rows). f (Insert Agricultural_machinery j) = None"
    by (simp_all add: paginate_concat)
  obtain r4 s4 where 4: "commit f s3 = (r4, s4)" by fastforce
  note a4 = commit_result [OF 4]
  from assms 1 r1 2 r2 3 r3 4 obtain u4 where r4: "r4 = Inr u4"
    by (cases r4) (auto simp add: save_to_db_try_def and_then_def pre_def [symmetric])
  from assms 1 r1 2 r2 3 r3 4 r4 have fin: "b = True" "s' = s4"
    by (auto simp add: save_to_db_try_def and_then_def pre_def [symmetric] return_def)
  from a4 r4 have "f Commit = None" "stored s4 = txn s3" by (simp_all add: issue_def)
  with fin t3 t2 f1 show ?thesis by simp
qed



lemma get_connection_result:
  "get_connection f s = (b, s') \<Longrightarrow>
     (if b then f Connect = None \<and> s' = (issue Connect s)\<lparr>txn := stored s\<rparr>
      else f Connect \<noteq> None \<and> s' = emit (Error Unable_to_connect) (issue Connect s))"
  by (cases "f Connect") (auto simp add: get_connection_def connect_def execute_def)

lemma save_to_db_Nil: "save_to_db f [] s = (Inr False, emit (Warning No_data_to_save) s)"
  by (simp add: save_to_db_def)

lemma save_to_db_failure:
  assumes "fst (save_to_db f rows s) \<noteq> Inr True"
  shows "stored (snd (save_to_db f rows s)) = stored s"
proof (cases rows)
  case Nil
  then show ?thesis by (simp add: save_to_db_Nil)
next
  case (Cons row0 rest)
  obtain b s1 where 1: "get_connection f s = (b, s1)" by fastforce
  note a1 = get_connection_result [OF 1]
  show ?thesis
  proof (cases b)
    case False
    with 1 a1 Cons show ?thesis by (simp add: save_to_db_def)
  next
    case True
    with a1 have st1: "stored s1 = stored s" by simp
    obtain r2 s2 where 2: "save_to_db_try f (holder_id row0) rows s1 = (r2, s2)" by fastforce
    show ?thesis
    proof (cases r2)
      case (Inr b2)
      with 2 have "b2 = True" using save_to_db_try_Inr by blast
      with assms Cons 1 True 2 Inr show ?thesis by (simp add: save_to_db_def)
    next
      case (Inl e)
      with 2 have st2: "stored s2 = stored s1" using save_to_db_try_Inl by blast
      obtain r3 s3 where 3: "rollback f s2 = (r3, s3)" by fastforce
      from rollback_result [OF 3] have "stored s3 = stored s2" by (cases r3) simp_all
      with Cons 1 True 2 Inl 3 st1 st2 show ?thesis
        by (cases r3) (simp_all add: save_to_db_def)
    qed
  qed
qed

lemma save_to_db_success:
  assumes "save_to_db f rows s = (Inr True, s')"
  shows "\<exists>row0 rest. rows = row0 # rest \<and>
     agricultural_machinery (stored s') =
       filter (\<lambda>(i, r). holder_id r \<noteq> holder_id row0) (agricultural_machinery (stored s))
       @ zip [seq_machinery s ..< seq_machinery s + length rows] rows \<and>
     holder_survey_progress (stored s') = holder_survey_progress (stored s) \<and>
     land_use (stored s') = land_use (stored s) \<and>
     land_use_parcels (stored s') = land_use_parcels (stored s) \<and>
     holding_labour (stored s') = holding_labour (stored s) \<and>
     f Connect = None \<and>
     f (Select Agricultural_machinery) = None \<and>
     (machinery_of (holder_id row0) (agricultural_machinery (stored s)) \<noteq> []
        \<longrightarrow> f (Delete Agricultural_machinery) = None) \<and>
     (\<forall>j < length (paginate 100 rows). f (Insert Agricultural_machinery j) = None) \<and>
     f Commit = None"
proof (cases rows)
  case Nil
  with assms show ?thesis by (simp add: save_to_db_Nil)
next
  case (Cons row0 rest)
  obtain b s1 where 1: "get_connection f s = (b, s1)" by fastforce
  note a1 = get_connection_result [OF 1]
  from assms Cons 1 have b: "b" by (cases b) (auto simp add: save_to_db_def)
  with a1 have c: "f Connect = None" and s1: "txn s1 = stored s" "seq_machinery s1 = seq_machinery s"
    by simp_all
  obtain r2 s2 where 2: "save_to_db_try f (holder_id row0) rows s1 = (r2, s2)" by fastforce
  have "r2 = Inr True \<and> s' = close s2"
  proof (cases r2)
    case (Inr b2)
    with assms Cons 1 b 2 show ?thesis by (auto simp add: save_to_db_def)
  next
    case (Inl e)
    obtain r3 s3 where 3: "rollback f s2 = (r3, s3)" by fastforce
    with assms Cons 1 b 2 Inl show ?thesis by (cases r3) (auto simp add: save_to_db_def)
  qed
  then have r2: "save_to_db_try f (holder_id row0) rows s1 = (Inr True, s2)" and s': "s' = close s2"
    using 2 by simp_all
  from save_to_db_try_Inr [OF r2] s1 s' c Cons show ?thesis by simp
qed



lemma load_existing_data_depends:
  "stored s = stored s' \<Longrightarrow> fst (load_existing_data f h s) = fst (load_existing_data f h s')"
  by (cases "f Connect"; cases "f (Select Agricultural_machinery)")
     (simp_all add: load_existing_data_def get_connection_def connect_def execute_def select_machinery_def)



lemma no_faults_None [simp]: "no_faults k = None"
  by (simp add: no_faults_def)


section \<open>Lemmas: the events of the machinery validator\<close>

lemma validate_row_snd_open:
  "Error (Open_entry_unspecified k) \<notin> set (snd (validate_row i row (True, [])))"
  by (simp add: validate_row_def Let_def report_if_split open_entry_guard_False)

lemma validate_row_snd_quantities:
  "has_item row = ''Y'' \<Longrightarrow> quantity_new row + quantity_used row + quantity_out_of_service row = 0 \<Longrightarrow>
   Error (Please_enter_quantities (equipment_name row)) \<in> set (snd (validate_row i row (True, [])))"
  by (simp add: validate_row_def Let_def report_if_split)

lemma validate_row_snd_range:
  "0 \<le> quantity_new row \<Longrightarrow> quantity_new row \<le> 20 \<Longrightarrow>
   0 \<le> quantity_used row \<Longrightarrow> quantity_used row \<le> 20 \<Longrightarrow>
   0 \<le> quantity_out_of_service row \<Longrightarrow> quantity_out_of_service row \<le> 20 \<Longrightarrow>
   Error (Quantity_out_of_range n t) \<notin> set (snd (validate_row i row (True, [])))"
  by (simp add: validate_row_def Let_def report_if_split qty_value_def)

lemma validate_loop_snd:
  "set (snd (validate_loop i rows (True, []))) =
     (\<Union>(j, r)\<in>set (zip [i ..< i + length rows] rows). set (snd (validate_row j r (True, []))))"
proof (induction rows arbitrary: i)
  case Nil
  then show ?case by simp
next
  case (Cons row rows)
  have "validate_loop i (row # rows) (True, []) = validate_loop (Suc i) rows (validate_row i row (True, []))"
    by simp
  then have "snd (validate_loop i (row # rows) (True, [])) =
        snd (validate_row i row (True, [])) @ snd (validate_loop (Suc i) rows (True, []))"
    using validate_loop_acc [of "Suc i" rows "validate_row i row (True, [])"] by simp
  moreover have "[i ..< i + length (row # rows)] = i # [Suc i ..< Suc i + length rows]"
    by (subst upt_rec) simp
  ultimately show ?case by (simp add: Cons.IH)
qed

lemma validate_events_iff:
  "ev \<in> set (snd (validate_machinery_data rows)) \<longleftrightarrow>
     (\<exists>(j, r)\<in>set (zip [0 ..< length rows] rows). ev \<in> set (snd (validate_row j r (True, []))))"
  by (auto simp add: validate_machinery_data_def validate_loop_snd)

lemma in_set_zip_upt: "r \<in> set rows \<Longrightarrow> \<exists>j. (j, r) \<in> set (zip [0 ..< length rows] rows)"
proof -
  assume "r \<in> set rows"
  then obtain j where j: "j < length rows" "rows ! j = r" by (auto simp add: in_set_conv_nth)
  then have "[0 ..< length rows] ! j = j \<and> rows ! j = r \<and> j < length [0 ..< length rows] \<and> j < length rows"
    by simp
  then have "(j, r) \<in> set (zip [0 ..< length rows] rows)"
    unfolding in_set_zip by (intro exI [of _ j]) simp
  then show ?thesis ..
qed

lemma machinery_submit_rejected:
  "\<not> fst (validate_machinery_data rows) \<Longrightarrow>
   machinery_submit f rows s = (Inr (), s\<lparr>ui := ui s @ snd (validate_machinery_data rows)\<rparr>)"
  by (cases "validate_machinery_data rows") (simp add: machinery_submit_def)

lemmas run_defs = load_existing_data_def get_connection_def connect_def execute_def no_faults_def
  select_machinery_def machinery_of_def issue_def close_def emit_def

section \<open>Lemmas: rollback and the land use tables\<close>

lemma trace_simps [simp]:
  "trace (issue k s) = trace s @ [k]" "trace (emit ev s) = trace s" "trace (close s) = trace s @ [Close]"
  by (simp_all add: issue_def emit_def close_def)

lemma seq_simps [simp]:
  "seq_land_use (issue k s) = seq_land_use s" "seq_land_use (emit ev s) = seq_land_use s"
  "seq_progress (issue k s) = seq_progress s" "seq_progress (emit ev s) = seq_progress s"
  "seq_labour (issue k s) = seq_labour s" "seq_labour (emit ev s) = seq_labour s"
  by (simp_all add: issue_def emit_def)

lemma save_to_db_rollback:
  assumes "rows \<noteq> []" and "f Connect = None" and "fst (save_to_db f rows s) \<noteq> Inr True"
  shows "Rollback \<in> set (trace (snd (save_to_db f rows s)))"
proof -
  from assms(1) obtain row0 rest where rows: "rows = row0 # rest" by (cases rows) auto
  let ?s1 = "(issue Connect s)\<lparr>txn := stored s\<rparr>"
  have 1: "get_connection f s = (True, ?s1)"
    using assms(2) by (simp add: get_connection_def connect_def execute_None)
  obtain r2 s2 where 2: "save_to_db_try f (holder_id row0) rows ?s1 = (r2, s2)" by fastforce
  show ?thesis
  proof (cases r2)
    case (Inr b2)
    with 2 have "b2 = True" using save_to_db_try_Inr by blast
    with assms(3) rows 1 2 Inr show ?thesis by (simp add: save_to_db_def)
  next
    case (Inl e)
    obtain r3 s3 where 3: "rollback f s2 = (r3, s3)" by fastforce
    from rollback_result [OF 3] have "Rollback \<in> set (trace s3)" by (cases r3) simp_all
    with rows 1 2 Inl 3 show ?thesis by (cases r3) (simp_all add: save_to_db_def)
  qed
qed

lemma land_use_get_connection_result:
  "land_use_get_connection f s = (b, s') \<Longrightarrow>
     (if b then f Connect = None \<and> s' = (issue Connect s)\<lparr>txn := stored s\<rparr>
      else \<exists>e. f Connect = Some e \<and> s' = emit (Error (Database_connection_error e)) (issue Connect s))"
  by (cases "f Connect") (auto simp add: land_use_get_connection_def connect_def execute_def)

lemma insert_parcels_result:
  "insert_parcels f lid k page s = (r, s') \<Longrightarrow>
     (case r of
        Inl e \<Rightarrow> s' = issue (Insert Land_use_parcels k) s
      | Inr u \<Rightarrow> f (Insert Land_use_parcels k) = None \<and>
          distinct (map (\<lambda>(l, p). (l, parcel_no p)) (land_use_parcels (txn s) @ map (Pair lid) page)) \<and>
          s' = (issue (Insert Land_use_parcels k) s)\<lparr>txn := (txn s)\<lparr>land_use_parcels :=
                 land_use_parcels (txn s) @ map (Pair lid) page\<rparr>\<rparr>)"
  by (cases "f (Insert Land_use_parcels k)")
     (auto simp add: insert_parcels_def execute_def issue_def Let_def split: if_splits)

lemma execute_pages_parcels_stored:
  "stored (snd (execute_pages (insert_parcels f lid) k pages s)) = stored s"
proof (induction pages arbitrary: k s)
  case Nil
  then show ?case by simp
next
  case (Cons page pages)
  obtain r s1 where 1: "insert_parcels f lid k page s = (r, s1)" by fastforce
  from insert_parcels_result [OF 1] have "stored s1 = stored s" by (cases r) simp_all
  with 1 Cons.IH [of "Suc k" s1] show ?case by (cases r) simp_all
qed

lemma execute_pages_parcels_Inr:
  "execute_pages (insert_parcels f lid) k pages s = (Inr u, s') \<Longrightarrow>
     land_use_parcels (txn s') = land_use_parcels (txn s) @ map (Pair lid) (concat pages) \<and>
     agricultural_machinery (txn s') = agricultural_machinery (txn s) \<and>
     holder_survey_progress (txn s') = holder_survey_progress (txn s) \<and>
     land_use (txn s') = land_use (txn s) \<and>
     holding_labour (txn s') = holding_labour (txn s) \<and>
     (\<forall>j < length pages. f (Insert Land_use_parcels (k + j)) = None)"
proof (induction pages arbitrary: k s)
  case Nil
  then show ?case by simp
next
  case (Cons page pages)
  obtain r s1 where 1: "insert_parcels f lid k page s = (r, s1)" by fastforce
  from Cons.prems 1 obtain u1 where r: "r = Inr u1" by (cases r) auto
  from insert_parcels_result [OF 1] r
  have s1: "s1 = (issue (Insert Land_use_parcels k) s)\<lparr>txn := (txn s)\<lparr>land_use_parcels :=
                 land_use_parcels (txn s) @ map (Pair lid) page\<rparr>\<rparr>"
    and None: "f (Insert Land_use_parcels k) = None" by simp_all
  from Cons.prems 1 r have "execute_pages (insert_parcels f lid) (Suc k) pages s1 = (Inr u, s')"
    by simp
  note ih = Cons.IH [OF this]
  have idx: "\<forall>j < length (page # pages). f (Insert Land_use_parcels (k + j)) = None"
  proof (intro allI impI)
    fix j assume j: "j < length (page # pages)"
    show "f (Insert Land_use_parcels (k + j)) = None"
    proof (cases j)
      case 0
      then show ?thesis using None by simp
    next
      case (Suc j')
      with j have "j' < length pages" by simp
      with ih have "f (Insert Land_use_parcels (Suc k + j')) = None" by blast
      then show ?thesis using Suc by simp
    qed
  qed
  from ih s1 idx show ?case by simp
qed

lemma select_land_use_id_result:
  "select_land_use_id f hid s = (r, s') \<Longrightarrow>
     s' = issue (Select Land_use) s \<and>
     (case r of Inl e \<Rightarrow> f (Select Land_use) = Some e
      | Inr x \<Rightarrow> f (Select Land_use) = None \<and>
          x = fetchone_id land_use_id (filter (\<lambda>r. land_use_holder_id r = hid) (land_use (txn s))))"
  by (cases "f (Select Land_use)") (auto simp add: select_land_use_id_def execute_def issue_def)

lemma update_land_use_result:
  "update_land_use f lid d s = (r, s') \<Longrightarrow>
     (case r of
        Inl e \<Rightarrow> s' = issue (Update Land_use) s
      | Inr u \<Rightarrow> f (Update Land_use) = None \<and>
          s' = (issue (Update Land_use) s)\<lparr>txn := (txn s)\<lparr>land_use :=
                 map (\<lambda>r. if land_use_id r = lid
                           then r\<lparr>total_area := total_area d, years_used := years_used d,
                                  main_purpose := main_purpose d, num_parcels := num_parcels d,
                                  location := location d, crop_methods := crop_methods d\<rparr>
                           else r)
                   (land_use (txn s))\<rparr>\<rparr>)"
  by (cases "f (Update Land_use)") (auto simp add: update_land_use_def execute_def issue_def)

lemma delete_parcels_result:
  "delete_parcels f lid s = (r, s') \<Longrightarrow>
     (case r of
        Inl e \<Rightarrow> s' = issue (Delete Land_use_parcels) s
      | Inr u \<Rightarrow> f (Delete Land_use_parcels) = None \<and>
          s' = (issue (Delete Land_use_parcels) s)\<lparr>txn := (txn s)\<lparr>land_use_parcels :=
                 filter (\<lambda>(l, p). l \<noteq> lid) (land_use_parcels (txn s))\<rparr>\<rparr>)"
  by (cases "f (Delete Land_use_parcels)") (auto simp add: delete_parcels_def execute_def issue_def)

lemma insert_land_use_result:
  "insert_land_use f hid d s = (r, s') \<Longrightarrow>
     (case r of
        Inl e \<Rightarrow> s' = issue (Insert Land_use 0) s
      | Inr lid \<Rightarrow> f (Insert Land_use 0) = None \<and> lid = seq_land_use s \<and>
          s' = (issue (Insert Land_use 0) s)\<lparr>txn := (txn s)\<lparr>land_use :=
                   land_use (txn s)
                   @ [\<lparr>total_area = total_area d, years_used = years_used d,
                       main_purpose = main_purpose d, num_parcels = num_parcels d,
                       location = location d, crop_methods = crop_methods d,
                       land_use_id = seq_land_use s, land_use_holder_id = hid\<rparr>]\<rparr>,
                 seq_land_use := seq_land_use s + 1\<rparr>)"
  by (cases "f (Insert Land_use 0)") (auto simp add: insert_land_use_def execute_def issue_def)

lemma land_use_header_result:
  assumes "(case existing of
              Some lid \<Rightarrow> and_then (update_land_use f lid d) (\<lambda>_.
                          and_then (delete_parcels f lid) (\<lambda>_. return lid))
            | None \<Rightarrow> insert_land_use f hid d) s = (r, s')"
  shows "stored s' = stored s \<and>
     (\<forall>lid. r = Inr lid \<longrightarrow>
        agricultural_machinery (txn s') = agricultural_machinery (txn s) \<and>
        holder_survey_progress (txn s') = holder_survey_progress (txn s) \<and>
        holding_labour (txn s') = holding_labour (txn s) \<and>
        (case existing of
           Some l \<Rightarrow> lid = l \<and>
             f (Update Land_use) = None \<and> f (Delete Land_use_parcels) = None \<and>
             land_use_parcels (txn s') = filter (\<lambda>(l', p). l' \<noteq> l) (land_use_parcels (txn s)) \<and>
             land_use (txn s') =
               map (\<lambda>r. if land_use_id r = l
                         then r\<lparr>total_area := total_area d, years_used := years_used d,
                                main_purpose := main_purpose d, num_parcels := num_parcels d,
                                location := location d, crop_methods := crop_methods d\<rparr>
                         else r) (land_use (txn s))
         | None \<Rightarrow> lid = seq_land_use s \<and> f (Insert Land_use 0) = None \<and>
             land_use_parcels (txn s') = land_use_parcels (txn s) \<and>
             land_use (txn s') =
               land_use (txn s)
               @ [\<lparr>total_area = total_area d, years_used = years_used d,
                   main_purpose = main_purpose d, num_parcels = num_parcels d,
                   location = location d, crop_methods = crop_methods d,
                   land_use_id = seq_land_use s, land_use_holder_id = hid\<rparr>]))"
proof (cases existing)
  case None
  with assms have "insert_land_use f hid d s = (r, s')" by simp
  from insert_land_use_result [OF this] None show ?thesis by (cases r) simp_all
next
  case (Some l)
  obtain r1 s1 where 1: "update_land_use f l d s = (r1, s1)" by fastforce
  note a1 = update_land_use_result [OF 1]
  show ?thesis
  proof (cases r1)
    case (Inl e)
    with assms Some 1 a1 show ?thesis by (auto simp add: and_then_def)
  next
    case r1: (Inr u1)
    obtain r2 s2 where 2: "delete_parcels f l s1 = (r2, s2)" by fastforce
    note a2 = delete_parcels_result [OF 2]
    show ?thesis
    proof (cases r2)
      case (Inl e)
      with assms Some 1 r1 a1 2 a2 show ?thesis by (auto simp add: and_then_def)
    next
      case (Inr u2)
      with assms Some 1 r1 a1 2 a2 show ?thesis by (auto simp add: and_then_def return_def)
    qed
  qed
qed

lemma save_land_use_try_outcome:
  assumes "save_land_use_try f d hid s = (r, s')"
  shows "(\<exists>e. r = Inl e \<and> stored s' = stored s) \<or>
     (r = Inr True \<and> f Commit = None \<and> f (Select Land_use) = None \<and>
      (\<forall>j < length (paginate 100 (parcels d)). f (Insert Land_use_parcels j) = None) \<and>
      agricultural_machinery (stored s') = agricultural_machinery (txn s) \<and>
      holder_survey_progress (stored s') = holder_survey_progress (txn s) \<and>
      holding_labour (stored s') = holding_labour (txn s) \<and>
      (case fetchone_id land_use_id (filter (\<lambda>r. land_use_holder_id r = hid) (land_use (txn s))) of
         Some l \<Rightarrow>
           f (Update Land_use) = None \<and> f (Delete Land_use_parcels) = None \<and>
           land_use_parcels (stored s') =
             filter (\<lambda>(l', p). l' \<noteq> l) (land_use_parcels (txn s)) @ map (Pair l) (parcels d) \<and>
           land_use (stored s') =
             map (\<lambda>r. if land_use_id r = l
                       then r\<lparr>total_area := total_area d, years_used := years_used d,
                              main_purpose := main_purpose d, num_parcels := num_parcels d,
                              location := location d, crop_methods := crop_methods d\<rparr>
                       else r) (land_use (txn s))
       | None \<Rightarrow>
           f (Insert Land_use 0) = None \<and>
           land_use_parcels (stored s') =
             land_use_parcels (txn s) @ map (Pair (seq_land_use s)) (parcels d) \<and>
           land_use (stored s') =
             land_use (txn s)
             @ [\<lparr>total_area = total_area d, years_used = years_used d,
                 main_purpose = main_purpose d, num_parcels = num_parcels d,
                 location = location d, crop_methods = crop_methods d,
                 land_use_id = seq_land_use s, land_use_holder_id = hid\<rparr>]))"
proof -
  obtain r1 s1 where 1: "select_land_use_id f hid s = (r1, s1)" by fastforce
  note a1 = select_land_use_id_result [OF 1]
  show ?thesis
  proof (cases r1)
    case (Inl e)
    with assms 1 a1 show ?thesis by (auto simp add: save_land_use_try_def and_then_def)
  next
    case r1: (Inr existing)
    with a1 have ex: "existing = fetchone_id land_use_id (filter (\<lambda>r. land_use_holder_id r = hid) (land_use (txn s)))"
      and s1: "s1 = issue (Select Land_use) s" and f1: "f (Select Land_use) = None" by simp_all
    define header where "header = (case existing of
              Some lid \<Rightarrow> and_then (update_land_use f lid d) (\<lambda>_.
                          and_then (delete_parcels f lid) (\<lambda>_. return lid))
            | None \<Rightarrow> insert_land_use f hid d)"
    obtain r2 s2 where 2: "header s1 = (r2, s2)" by fastforce
    note a2 = land_use_header_result [OF 2 [unfolded header_def]]
    from a2 s1 have st2: "stored s2 = stored s" by simp
    show ?thesis
    proof (cases r2)
      case (Inl e)
      with assms 1 r1 2 st2 show ?thesis
        by (auto simp add: save_land_use_try_def and_then_def header_def [symmetric])
    next
      case r2: (Inr lid)
      obtain r3 s3 where 3: "execute_values (insert_parcels f lid) (parcels d) s2 = (r3, s3)" by fastforce
      have st3: "stored s3 = stored s"
        using execute_pages_parcels_stored [of f lid 0 "paginate 100 (parcels d)" s2] 3 st2
        by (simp add: execute_values_def)
      show ?thesis
      proof (cases r3)
        case (Inl e)
        with assms 1 r1 2 r2 3 st3 show ?thesis
          by (auto simp add: save_land_use_try_def and_then_def header_def [symmetric])
      next
        case r3: (Inr u3)
        with 3 have "execute_pages (insert_parcels f lid) 0 (paginate 100 (parcels d)) s2 = (Inr u3, s3)"
          by (simp add: execute_values_def)
        note a3' = execute_pages_parcels_Inr [OF this, unfolded paginate_concat [OF zero_less_numeral]]
        from a3' have a3: "land_use_parcels (txn s3) = land_use_parcels (txn s2) @ map (Pair lid) (parcels d)"
          "agricultural_machinery (txn s3) = agricultural_machinery (txn s2)"
          "holder_survey_progress (txn s3) = holder_survey_progress (txn s2)"
          "land_use (txn s3) = land_use (txn s2)"
          "holding_labour (txn s3) = holding_labour (txn s2)"
          "\<forall>j < length (paginate 100 (parcels d)). f (Insert Land_use_parcels j) = None"
          by simp_all
        obtain r4 s4 where 4: "commit f s3 = (r4, s4)" by fastforce
        note a4 = commit_result [OF 4]
        show ?thesis
        proof (cases r4)
          case (Inl e)
          with assms 1 r1 2 r2 3 r3 4 a4 st3 show ?thesis
            by (auto simp add: save_land_use_try_def and_then_def header_def [symmetric])
        next
          case r4: (Inr u4)
          with assms 1 r1 2 r2 3 r3 4 have fin: "r = Inr True" "s' = emit (Success Land_use_saved) s4"
            by (auto simp add: save_land_use_try_def and_then_def header_def [symmetric])
          from a4 r4 have c: "f Commit = None" "stored s4 = txn s3" by simp_all
          from a2 r2 s1 have h: "agricultural_machinery (txn s2) = agricultural_machinery (txn s)"
            "holder_survey_progress (txn s2) = holder_survey_progress (txn s)"
            "holding_labour (txn s2) = holding_labour (txn s)" by simp_all
          show ?thesis
          proof (cases existing)
            case None
            with a2 r2 s1 have "lid = seq_land_use s" "f (Insert Land_use 0) = None"
              "land_use_parcels (txn s2) = land_use_parcels (txn s)"
              "land_use (txn s2) = land_use (txn s)
               @ [\<lparr>total_area = total_area d, years_used = years_used d,
                 main_purpose = main_purpose d, num_parcels = num_parcels d,
                 location = location d, crop_methods = crop_methods d,
                 land_use_id = seq_land_use s, land_use_holder_id = hid\<rparr>]" by simp_all
            with fin c a3 h None ex [symmetric] f1 show ?thesis by simp
          next
            case (Some l)
            with a2 r2 s1 have "lid = l" "f (Update Land_use) = None" "f (Delete Land_use_parcels) = None"
              "land_use_parcels (txn s2) = filter (\<lambda>(l', p). l' \<noteq> l) (land_use_parcels (txn s))"
              "land_use (txn s2) = map (\<lambda>r. if land_use_id r = l
                       then r\<lparr>total_area := total_area d, years_used := years_used d,
                              main_purpose := main_purpose d, num_parcels := num_parcels d,
                              location := location d, crop_methods := crop_methods d\<rparr>
                       else r) (land_use (txn s))" by simp_all
            with fin c a3 h Some ex [symmetric] f1 show ?thesis by simp
          qed
        qed
      qed
    qed
  qed
qed

lemma save_land_use_failure:
  assumes "fst (save_land_use_to_db f d hid s) \<noteq> Inr True"
  shows "stored (snd (save_land_use_to_db f d hid s)) = stored s"
proof -
  obtain b s1 where 1: "land_use_get_connection f s = (b, s1)" by fastforce
  note a1 = land_use_get_connection_result [OF 1]
  show ?thesis
  proof (cases b)
    case False
    with 1 a1 show ?thesis by (auto simp add: save_land_use_to_db_def)
  next
    case True
    with a1 have st1: "stored s1 = stored s" by simp
    obtain r2 s2 where 2: "save_land_use_try f d hid s1 = (r2, s2)" by fastforce
    from save_land_use_try_outcome [OF 2]
    consider (fail) e where "r2 = Inl e" "stored s2 = stored s1" | (ok) "r2 = Inr True"
      by blast
    then show ?thesis
    proof cases
      case fail
      obtain r3 s3 where 3: "rollback f s2 = (r3, s3)" by fastforce
      from rollback_result [OF 3] have "stored s3 = stored s2" by (cases r3) simp_all
      with 1 True 2 fail 3 st1 show ?thesis
        by (cases r3) (simp_all add: save_land_use_to_db_def)
    next
      case ok
      with assms 1 True 2 show ?thesis by (simp add: save_land_use_to_db_def)
    qed
  qed
qed

lemma save_land_use_success:
  assumes "save_land_use_to_db f d hid s = (Inr True, s')"
  shows "f Connect = None \<and> f (Select Land_use) = None \<and> f Commit = None \<and>
      (\<forall>j < length (paginate 100 (parcels d)). f (Insert Land_use_parcels j) = None) \<and>
      agricultural_machinery (stored s') = agricultural_machinery (stored s) \<and>
      holder_survey_progress (stored s') = holder_survey_progress (stored s) \<and>
      holding_labour (stored s') = holding_labour (stored s) \<and>
      (case fetchone_id land_use_id (filter (\<lambda>r. land_use_holder_id r = hid) (land_use (stored s))) of
         Some l \<Rightarrow>
           f (Update Land_use) = None \<and> f (Delete Land_use_parcels) = None \<and>
           land_use_parcels (stored s') =
             filter (\<lambda>(l', p). l' \<noteq> l) (land_use_parcels (stored s)) @ map (Pair l) (parcels d) \<and>
           land_use (stored s') =
             map (\<lambda>r. if land_use_id r = l
                       then r\<lparr>total_area := total_area d, years_used := years_used d,
                              main_purpose := main_purpose d, num_parcels := num_parcels d,
                              location := location d, crop_methods := crop_methods d\<rparr>
                       else r) (land_use (stored s))
       | None \<Rightarrow>
           f (Insert Land_use 0) = None \<and>
           land_use_parcels (stored s') =
             land_use_parcels (stored s) @ map (Pair (seq_land_use s)) (parcels d) \<and>
           land_use (stored s') =
             land_use (stored s)
             @ [\<lparr>total_area = total_area d, years_used = years_used d,
                 main_purpose = main_purpose d, num_parcels = num_parcels d,
                 location = location d, crop_methods = crop_methods d,
                 land_use_id = seq_land_use s, land_use_holder_id = hid\<rparr>])"
proof -
  obtain b s1 where 1: "land_use_get_connection f s = (b, s1)" by fastforce
  note a1 = land_use_get_connection_result [OF 1]
  from assms 1 have b: "b" by (cases b) (auto simp add: save_land_use_to_db_def)
  with a1 have c: "f Connect = None" and s1: "txn s1 = stored s" "seq_land_use s1 = seq_land_use s"
    by simp_all
  obtain r2 s2 where 2: "save_land_use_try f d hid s1 = (r2, s2)" by fastforce
  have "r2 = Inr True \<and> s' = close s2"
  proof (cases r2)
    case (Inr b2)
    with assms 1 b 2 show ?thesis by (auto simp add: save_land_use_to_db_def)
  next
    case (Inl e)
    obtain r3 s3 where 3: "rollback f s2 = (r3, s3)" by fastforce
    with assms 1 b 2 Inl show ?thesis by (cases r3) (auto simp add: save_land_use_to_db_def)
  qed
  then have r2: "r2 = Inr True" and s': "s' = close s2" by simp_all
  from save_land_use_try_outcome [OF 2] r2 s1 s' c show ?thesis
    by (simp split: option.splits)
qed

lemma save_land_use_rollback:
  assumes "f Connect = None" and "fst (save_land_use_to_db f d hid s) \<noteq> Inr True"
  shows "Rollback \<in> set (trace (snd (save_land_use_to_db f d hid s)))"
proof -
  let ?s1 = "(issue Connect s)\<lparr>txn := stored s\<rparr>"
  have 1: "land_use_get_connection f s = (True, ?s1)"
    using assms(1) by (simp add: land_use_get_connection_def connect_def execute_None)
  obtain r2 s2 where 2: "save_land_use_try f d hid ?s1 = (r2, s2)" by fastforce
  from save_land_use_try_outcome [OF 2]
  consider (fail) e where "r2 = Inl e" | (ok) "r2 = Inr True" by blast
  then show ?thesis
  proof cases
    case ok
    with assms(2) 1 2 show ?thesis by (simp add: save_land_use_to_db_def)
  next
    case fail
    obtain r3 s3 where 3: "rollback f s2 = (r3, s3)" by fastforce
    from rollback_result [OF 3] have "Rollback \<in> set (trace s3)" by (cases r3) simp_all
    with 1 2 fail 3 show ?thesis by (cases r3) (simp_all add: save_land_use_to_db_def)
  qed
qed

lemma paginate_small: "xs \<noteq> [] \<Longrightarrow> length xs \<le> n \<Longrightarrow> paginate n xs = [xs]"
  by (subst paginate.simps, subst paginate.simps) (cases xs; auto)

lemmas save_defs = save_to_db_def get_connection_def connect_def execute_def save_to_db_try_def
  and_then_def return_def select_count_machinery_def delete_machinery_def insert_machinery_def
  execute_values_def commit_def rollback_def machinery_of_def issue_def close_def emit_def
  no_faults_def

lemmas land_use_defs = save_land_use_to_db_def land_use_get_connection_def connect_def execute_def
  save_land_use_try_def and_then_def return_def select_land_use_id_def update_land_use_def
  delete_parcels_def insert_land_use_def insert_parcels_def fetchone_id_def
  execute_values_def commit_def rollback_def issue_def close_def emit_def no_faults_def

section \<open>Lemmas: survey progress\<close>

lemmas progress_defs = engine_begin_def engine_connect_def connect_def commit_def rollback_def
  execute_def and_then_def select_progress_by_section_no_def select_progress_by_section_id_def
  update_progress_completed_def insert_progress_def close_def issue_def no_faults_def

lemma mark_section_complete_runs:
  "fst (mark_section_complete no_faults h sec s) = Inr () \<and>
   holder_survey_progress (stored (snd (mark_section_complete no_faults h sec s))) =
     (case fetchone_id progress_id
             (filter (\<lambda>r. progress_holder_id r = h \<and> section_no r = Some sec)
                (holder_survey_progress (stored s))) of
        Some i \<Rightarrow> map (\<lambda>r. if progress_id r = i then r\<lparr>completed := True\<rparr> else r)
                    (holder_survey_progress (stored s))
      | None \<Rightarrow> holder_survey_progress (stored s)
                 @ [\<lparr>progress_id = seq_progress s, progress_holder_id = h, section_no = Some sec,
                     section_id = omitted_section_id s sec, completed = True\<rparr>]) \<and>
   seq_progress (snd (mark_section_complete no_faults h sec s)) =
     (case fetchone_id progress_id
             (filter (\<lambda>r. progress_holder_id r = h \<and> section_no r = Some sec)
                (holder_survey_progress (stored s))) of
        Some i \<Rightarrow> seq_progress s
      | None \<Rightarrow> seq_progress s + 1) \<and>
   omitted_section_id (snd (mark_section_complete no_faults h sec s)) = omitted_section_id s"
  by (simp add: mark_section_complete_def progress_defs split: option.splits)

lemma fetchone_id_Some: "fetchone_id ident rows = Some i \<Longrightarrow> \<exists>r rest. rows = r # rest \<and> ident r = i"
  by (cases rows) (simp_all add: fetchone_id_def)

lemma filter_map_completed:
  assumes "\<And>r. P (r\<lparr>completed := True\<rparr>) = P r"
  shows "filter P (map (\<lambda>r. if progress_id r = i then r\<lparr>completed := True\<rparr> else r) rows)
         = map (\<lambda>r. if progress_id r = i then r\<lparr>completed := True\<rparr> else r) (filter P rows)"
  by (induction rows) (simp_all add: assms)

lemma map_completed_idem:
  "map (\<lambda>r. if progress_id r = i then r\<lparr>completed := True\<rparr> else r)
     (map (\<lambda>r. if progress_id r = i then r\<lparr>completed := True\<rparr> else r) rows)
   = map (\<lambda>r. if progress_id r = i then r\<lparr>completed := True\<rparr> else r) rows"
  by (induction rows) simp_all

lemma map_completed_fresh:
  "\<forall>r\<in>set rows. progress_id r \<noteq> i \<Longrightarrow>
   map (\<lambda>r. if progress_id r = i then r\<lparr>completed := True\<rparr> else r) rows = rows"
  by (induction rows) simp_all

lemma marked_twice:
  fixes P :: "progress_row \<Rightarrow> bool" and new :: "nat \<Rightarrow> progress_row"
  defines "M \<equiv> \<lambda>n rows. (case fetchone_id progress_id (filter P rows) of
        Some i \<Rightarrow> map (\<lambda>r. if progress_id r = i then r\<lparr>completed := True\<rparr> else r) rows
      | None \<Rightarrow> rows @ [new n])"
  assumes P: "\<And>r. P (r\<lparr>completed := True\<rparr>) = P r"
    and new: "\<And>n. P (new n) \<and> completed (new n) \<and> progress_id (new n) = n"
    and fresh: "\<forall>r\<in>set rows. progress_id r < n"
    and uniq: "length (filter P rows) \<le> 1"
  shows "M n' (M n rows) = M n rows \<and> length (filter P (M n rows)) = 1 \<and>
         (\<forall>r\<in>set (filter P (M n rows)). completed r)"
proof (cases "filter P rows")
  case Nil
  then have m: "M n rows = rows @ [new n]" by (simp add: M_def fetchone_id_def)
  from Nil new have f: "filter P (rows @ [new n]) = [new n]" by simp
  from fresh have "\<forall>r\<in>set rows. progress_id r \<noteq> n" by auto
  then have "map (\<lambda>r. if progress_id r = n then r\<lparr>completed := True\<rparr> else r) rows = rows"
    by (rule map_completed_fresh)
  moreover have "(new n)\<lparr>completed := True\<rparr> = new n" using new [of n] by simp
  ultimately have "M n' (rows @ [new n]) = rows @ [new n]"
    using new [of n] Nil by (simp add: M_def fetchone_id_def)
  with m f new show ?thesis by simp
next
  case (Cons r0 rest)
  with uniq have one: "filter P rows = [r0]" by simp
  let ?u = "\<lambda>r. if progress_id r = progress_id r0 then r\<lparr>completed := True\<rparr> else r"
  from one have m: "M n rows = map ?u rows" by (simp add: M_def fetchone_id_def)
  have f: "filter P (map ?u rows) = [r0\<lparr>completed := True\<rparr>]"
    using filter_map_completed [of P "progress_id r0" rows, OF P] one by simp
  have "M n' (map ?u rows) = map ?u (map ?u rows)"
    by (simp add: M_def f fetchone_id_def)
  then have "M n' (map ?u rows) = map ?u rows" by (simp only: map_completed_idem)
  with m f show ?thesis by simp
qed



section \<open>Lemmas: exceptions that are caught and exceptions that leave\<close>

lemma ui_simps [simp]:
  "ui (issue k s) = ui s" "ui (emit ev s) = ui s @ [ev]" "ui (close s) = ui s"
  by (simp_all add: issue_def emit_def close_def)












section \<open>Lemmas: the parcel validator\<close>

lemmas parcel_defs = validate_parcel_def append_error_if_def bind_exn_def append_if_def cell_gt_def Let_def

lemma validate_parcel_acc:
  "validate_parcel row (errors, ws) =
     (map_sum id ((@) errors) (fst (validate_parcel row ([], []))),
      ws @ snd (validate_parcel row ([], [])))"
  by (cases "df_total_acres row"; cases "df_developed_acres row"; cases "df_irrigated_area row")
     (simp_all add: parcel_defs)

lemma validate_parcel_returns:
  "(\<exists>er. fst (validate_parcel r ([], [])) = Inr er) \<longleftrightarrow>
     df_total_acres r \<noteq> Missing \<and> df_developed_acres r \<noteq> Missing \<and> df_irrigated_area r \<noteq> Missing"
  by (cases "df_total_acres r"; cases "df_developed_acres r"; cases "df_irrigated_area r")
     (simp_all add: parcel_defs)

lemma validate_parcel_developed:
  "cell_gt (df_developed_acres r) (df_total_acres r) = Inr True \<Longrightarrow>
   fst (validate_parcel r ([], [])) = Inr er \<Longrightarrow>
   Developed_exceeds_total (df_parcel_no r) \<in> set er"
  by (cases "df_total_acres r"; cases "df_developed_acres r"; cases "df_irrigated_area r")
     (auto simp add: parcel_defs)

lemma validate_parcel_irrigated:
  "cell_gt (df_irrigated_area r) (df_total_acres r) = Inr True \<Longrightarrow>
   fst (validate_parcel r ([], [])) = Inr er \<Longrightarrow>
   snd (validate_parcel r ([], [])) = [Warning (Irrigated_exceeds_total (df_parcel_no r))]"
  by (cases "df_total_acres r"; cases "df_developed_acres r"; cases "df_irrigated_area r")
     (auto simp add: parcel_defs)

lemma validate_parcel_no_errors:
  "fst (validate_parcel r ([], [])) = Inr [] \<longleftrightarrow>
     cell_lt (df_total_acres r) (Value 0) = Inr False \<and>
     cell_lt (df_developed_acres r) (Value 0) = Inr False \<and>
     cell_lt (df_irrigated_area r) (Value 0) = Inr False \<and>
     cell_gt (df_developed_acres r) (df_total_acres r) = Inr False"
  by (cases "df_total_acres r"; cases "df_developed_acres r"; cases "df_irrigated_area r")
     (auto simp add: parcel_defs)

lemma validate_parcels_loop_Inr:
  "validate_parcels_loop rows (errors, ws) = (Inr out, ws') \<Longrightarrow>
     (\<forall>r\<in>set rows. \<exists>er. fst (validate_parcel r ([], [])) = Inr er) \<and>
     out = errors @ concat (map (\<lambda>r. projr (fst (validate_parcel r ([], [])))) rows) \<and>
     ws' = ws @ concat (map (\<lambda>r. snd (validate_parcel r ([], []))) rows)"
proof (induction rows arbitrary: errors ws)
  case Nil
  then show ?case by simp
next
  case (Cons row rows)
  obtain r1 w1 where 1: "validate_parcel row (errors, ws) = (r1, w1)" by fastforce
  from Cons.prems 1 obtain e1 where r1: "r1 = Inr e1" by (cases r1) auto
  from 1 r1 validate_parcel_acc [of row errors ws]
  obtain er where er: "fst (validate_parcel row ([], [])) = Inr er" and e1: "e1 = errors @ er"
    and w1: "w1 = ws @ snd (validate_parcel row ([], []))"
    by (cases "fst (validate_parcel row ([], []))") auto
  from Cons.prems 1 r1 have "validate_parcels_loop rows (e1, w1) = (Inr out, ws')" by simp
  from Cons.IH [OF this] er e1 w1 show ?case by simp
qed

lemma validate_parcels_loop_returns:
  "\<forall>r\<in>set rows. \<exists>er. fst (validate_parcel r ([], [])) = Inr er \<Longrightarrow>
   \<exists>out ws'. validate_parcels_loop rows (errors, ws) = (Inr out, ws')"
proof (induction rows arbitrary: errors ws)
  case Nil
  then show ?case by simp
next
  case (Cons row rows)
  from Cons.prems obtain er where er: "fst (validate_parcel row ([], [])) = Inr er" by auto
  then have "validate_parcel row (errors, ws) = (Inr (errors @ er), ws @ snd (validate_parcel row ([], [])))"
    by (subst validate_parcel_acc) simp
  moreover from Cons.prems have "\<forall>r\<in>set rows. \<exists>er. fst (validate_parcel r ([], [])) = Inr er" by simp
  ultimately show ?case using Cons.IH by simp
qed

lemma validate_parcels_Inr:
  assumes "fst (validate_parcels rows) = Inr out"
  shows "(\<forall>r\<in>set rows. \<exists>er. fst (validate_parcel r ([], [])) = Inr er) \<and>
     out = concat (map (\<lambda>r. projr (fst (validate_parcel r ([], [])))) rows) \<and>
     snd (validate_parcels rows) = concat (map (\<lambda>r. snd (validate_parcel r ([], []))) rows)"
proof -
  from assms have "validate_parcels_loop rows ([], []) = (Inr out, snd (validate_parcels rows))"
    unfolding validate_parcels_def by (metis prod.collapse)
  from validate_parcels_loop_Inr [OF this] show ?thesis by simp
qed

lemma land_use_submit_raises:
  assumes "fst (validate_parcels edited_df) = Inl e"
  shows "land_use_submit f form edited_df hid s = (Inl e, s\<lparr>ui := ui s @ snd (validate_parcels edited_df)\<rparr>)"
  using assms by (cases "validate_parcels edited_df") (simp add: land_use_submit_def Let_def)

lemma land_use_submit_rejected:
  assumes "fst (validate_parcels edited_df) = Inr errs" and "errs \<noteq> []"
  shows "land_use_submit f form edited_df hid s =
           (Inr False,
            s\<lparr>ui := ui s @ snd (validate_parcels edited_df)
                  @ map (\<lambda>e. Error (Land_use_error e))
                      (validate_main_land_use (total_area form) (years_used form) (crop_methods form)
                         (num_parcels form) (location form) @ errs)\<rparr>)"
  using assms by (cases "validate_parcels edited_df") (simp add: land_use_submit_def Let_def)

lemma validate_parcels_returns:
  "(\<exists>errors. fst (validate_parcels rows) = Inr errors) \<longleftrightarrow>
     (\<forall>r\<in>set rows. df_total_acres r \<noteq> Missing \<and> df_developed_acres r \<noteq> Missing \<and>
                      df_irrigated_area r \<noteq> Missing)"
proof
  assume "\<exists>errors. fst (validate_parcels rows) = Inr errors"
  then obtain errors where "fst (validate_parcels rows) = Inr errors" ..
  from validate_parcels_Inr [OF this]
  have "\<forall>r\<in>set rows. \<exists>er. fst (validate_parcel r ([], [])) = Inr er" by simp
  then show "\<forall>r\<in>set rows. df_total_acres r \<noteq> Missing \<and> df_developed_acres r \<noteq> Missing \<and>
                      df_irrigated_area r \<noteq> Missing"
    unfolding validate_parcel_returns .
next
  assume "\<forall>r\<in>set rows. df_total_acres r \<noteq> Missing \<and> df_developed_acres r \<noteq> Missing \<and>
                      df_irrigated_area r \<noteq> Missing"
  then have "\<forall>r\<in>set rows. \<exists>er. fst (validate_parcel r ([], [])) = Inr er"
    unfolding validate_parcel_returns .
  from validate_parcels_loop_returns [OF this, of "[]" "[]"]
  show "\<exists>errors. fst (validate_parcels rows) = Inr errors"
    unfolding validate_parcels_def by auto
qed

lemma validate_parcels_no_errors:
  "fst (validate_parcels rows) = Inr [] \<longleftrightarrow>
     (\<forall>r\<in>set rows. fst (validate_parcel r ([], [])) = Inr [])"
proof
  assume a: "fst (validate_parcels rows) = Inr []"
  from validate_parcels_Inr [OF a]
  have r: "\<forall>r\<in>set rows. \<exists>er. fst (validate_parcel r ([], [])) = Inr er"
    and c: "[] = concat (map (\<lambda>r. projr (fst (validate_parcel r ([], [])))) rows)" by simp_all
  show "\<forall>r\<in>set rows. fst (validate_parcel r ([], [])) = Inr []"
  proof
    fix x assume x: "x \<in> set rows"
    with r obtain er where er: "fst (validate_parcel x ([], [])) = Inr er" by blast
    from c [symmetric] x have "projr (fst (validate_parcel x ([], []))) = []" by simp
    with er show "fst (validate_parcel x ([], [])) = Inr []" by simp
  qed
next
  assume a: "\<forall>r\<in>set rows. fst (validate_parcel r ([], [])) = Inr []"
  then have "\<forall>r\<in>set rows. \<exists>er. fst (validate_parcel r ([], [])) = Inr er" by simp
  from validate_parcels_loop_returns [OF this, of "[]" "[]"]
  obtain out ws' where o: "validate_parcels_loop rows ([], []) = (Inr out, ws')" by blast
  from validate_parcels_loop_Inr [OF o] a have "out = []" by simp
  with o show "fst (validate_parcels rows) = Inr []" unfolding validate_parcels_def by simp
qed

section \<open>Lemmas: the labour modules and the completed sections\<close>






section \<open>Verified properties\<close>



text \<open>
  Claim C2. \<open>mark_section_complete\<close> is idempotent. On a progress table whose ids come from
  its sequence and which holds at most one row for the pair of holder and section, two calls
  in succession (no statement raising) both succeed; the second call leaves the table exactly
  as the first call left it, so it inserts no duplicate; and afterwards the table holds
  exactly one row for the pair, with \<open>completed\<close> true.
\<close>

theorem mark_section_complete_idempotent:
  assumes "\<forall>r\<in>set (holder_survey_progress (stored s)). progress_id r < seq_progress s"
    and "length (filter (\<lambda>r. progress_holder_id r = h \<and> section_no r = Some sec)
                   (holder_survey_progress (stored s))) \<le> 1"
  shows "fst (mark_section_complete no_faults h sec s) = Inr () \<and>
         fst (mark_section_complete no_faults h sec (snd (mark_section_complete no_faults h sec s))) = Inr () \<and>
         holder_survey_progress (stored (snd (mark_section_complete no_faults h sec
                                   (snd (mark_section_complete no_faults h sec s)))))
           = holder_survey_progress (stored (snd (mark_section_complete no_faults h sec s))) \<and>
         length (filter (\<lambda>r. progress_holder_id r = h \<and> section_no r = Some sec)
                   (holder_survey_progress (stored (snd (mark_section_complete no_faults h sec
                                   (snd (mark_section_complete no_faults h sec s))))))) = 1 \<and>
         (\<forall>r\<in>set (filter (\<lambda>r. progress_holder_id r = h \<and> section_no r = Some sec)
                   (holder_survey_progress (stored (snd (mark_section_complete no_faults h sec
                                   (snd (mark_section_complete no_faults h sec s))))))). completed r)"
proof -
  let ?P = "\<lambda>r. progress_holder_id r = h \<and> section_no r = Some sec"
  let ?new = "\<lambda>d n. \<lparr>progress_id = n, progress_holder_id = h, section_no = Some sec,
                     section_id = d, completed = True\<rparr>"
  define M where "M = (\<lambda>d n rows. (case fetchone_id progress_id (filter ?P rows) of
        Some i \<Rightarrow> map (\<lambda>r. if progress_id r = i then r\<lparr>completed := True\<rparr> else r) rows
      | None \<Rightarrow> rows @ [?new d n]))"
  define s1 where "s1 = snd (mark_section_complete no_faults h sec s)"
  define s2 where "s2 = snd (mark_section_complete no_faults h sec s1)"
  define t where "t = holder_survey_progress (stored s)"
  define d where "d = omitted_section_id s sec"
  from mark_section_complete_runs [of h sec s]
  have r1: "fst (mark_section_complete no_faults h sec s) = Inr ()"
    and t1: "holder_survey_progress (stored s1) = M d (seq_progress s) t"
    and d1: "omitted_section_id s1 sec = d"
    by (simp_all add: M_def s1_def t_def d_def)
  from mark_section_complete_runs [of h sec s1]
  have r2: "fst (mark_section_complete no_faults h sec s1) = Inr ()"
    and t2': "holder_survey_progress (stored s2)
              = M (omitted_section_id s1 sec) (seq_progress s1) (holder_survey_progress (stored s1))"
    by (simp_all add: M_def s2_def)
  from t2' have t2: "holder_survey_progress (stored s2)
              = M d (seq_progress s1) (holder_survey_progress (stored s1))"
    unfolding d1 .
  have "M d (seq_progress s1) (M d (seq_progress s) t) = M d (seq_progress s) t \<and>
        length (filter ?P (M d (seq_progress s) t)) = 1 \<and>
        (\<forall>r\<in>set (filter ?P (M d (seq_progress s) t)). completed r)"
    unfolding M_def by (rule marked_twice) (use assms in \<open>simp_all add: t_def\<close>)
  then have "holder_survey_progress (stored s2) = holder_survey_progress (stored s1) \<and>
    length (filter ?P (holder_survey_progress (stored s2))) = 1 \<and>
    (\<forall>r\<in>set (filter ?P (holder_survey_progress (stored s2))). completed r)"
    unfolding t2 t1 by simp
  with r1 r2 show ?thesis unfolding s2_def s1_def by (intro conjI) blast+
qed

theorem mark_section_complete_idempotent_witness:
  "holder_survey_progress (stored (snd (mark_section_complete no_faults 7 1
      (snd (mark_section_complete no_faults 7 1 empty_session)))))
    = [\<lparr>progress_id = 1, progress_holder_id = 7, section_no = Some 1, section_id = None,
        completed = True\<rparr>] \<and>
   length (filter (\<lambda>r. progress_holder_id r = 7 \<and> section_no r = Some 1)
      (holder_survey_progress (stored (snd (mark_section_complete no_faults 7 1
         (snd (mark_section_complete no_faults 7 1 empty_session))))))) = 1"
proof -
  have h1: "\<forall>r\<in>set (holder_survey_progress (stored empty_session)). progress_id r < seq_progress empty_session"
    by simp
  have h2: "length (filter (\<lambda>r. progress_holder_id r = 7 \<and> section_no r = Some 1)
                   (holder_survey_progress (stored empty_session))) \<le> 1" by simp
  note th = mark_section_complete_idempotent [OF h1 h2]
  have one: "holder_survey_progress (stored (snd (mark_section_complete no_faults 7 1 empty_session)))
    = [\<lparr>progress_id = 1, progress_holder_id = 7, section_no = Some 1, section_id = None,
        completed = True\<rparr>]"
    by (simp add: mark_section_complete_def progress_defs fetchone_id_def null_column_def)
  from th one show ?thesis by simp
qed

text \<open>
  Claim C3. A cell of the parcels table is a number, \<open>NaN\<close> or \<open>None\<close>, and \<open>>\<close> holds only
  between two numbers. A parcel row whose developed acres exceed its total acres puts the error
  "Developed Acres cannot exceed Total Acres" into the list \<open>validate_parcels\<close> returns, and
  the submitted land use form then saves nothing, also when \<open>validate_parcels\<close> raises. A row
  whose irrigated area exceeds its total acres only gets a warning: the returned list is empty
  exactly when no row has a negative acreage or developed acres above the total, whatever the
  irrigated area is. \<open>validate_parcels\<close> returns a list exactly when no acreage cell is \<open>None\<close>.
\<close>

theorem parcel_cross_field_checks:
  "(r \<in> set rows \<and> cell_gt (df_developed_acres r) (df_total_acres r) = Inr True \<longrightarrow>
      (\<forall>errors. fst (validate_parcels rows) = Inr errors \<longrightarrow>
                  Developed_exceeds_total (df_parcel_no r) \<in> set errors) \<and>
      fst (land_use_submit f form rows hid s) =
        (case fst (validate_parcels rows) of Inl e \<Rightarrow> Inl e | Inr errors \<Rightarrow> Inr False) \<and>
      stored (snd (land_use_submit f form rows hid s)) = stored s \<and>
      trace (snd (land_use_submit f form rows hid s)) = trace s) \<and>
   (r \<in> set rows \<and> cell_gt (df_irrigated_area r) (df_total_acres r) = Inr True \<longrightarrow>
      (\<forall>errors. fst (validate_parcels rows) = Inr errors \<longrightarrow>
                  Warning (Irrigated_exceeds_total (df_parcel_no r)) \<in> set (snd (validate_parcels rows)))) \<and>
   (fst (validate_parcels rows) = Inr [] \<longleftrightarrow>
      (\<forall>r\<in>set rows. cell_lt (df_total_acres r) (Value 0) = Inr False \<and>
                       cell_lt (df_developed_acres r) (Value 0) = Inr False \<and>
                       cell_lt (df_irrigated_area r) (Value 0) = Inr False \<and>
                       cell_gt (df_developed_acres r) (df_total_acres r) = Inr False)) \<and>
   ((\<exists>errors. fst (validate_parcels rows) = Inr errors) \<longleftrightarrow>
      (\<forall>r\<in>set rows. df_total_acres r \<noteq> Missing \<and> df_developed_acres r \<noteq> Missing \<and>
                       df_irrigated_area r \<noteq> Missing))"
proof -
  have 1: "r \<in> set rows \<and> cell_gt (df_developed_acres r) (df_total_acres r) = Inr True \<longrightarrow>
      (\<forall>errors. fst (validate_parcels rows) = Inr errors \<longrightarrow>
                  Developed_exceeds_total (df_parcel_no r) \<in> set errors) \<and>
      fst (land_use_submit f form rows hid s) =
        (case fst (validate_parcels rows) of Inl e \<Rightarrow> Inl e | Inr errors \<Rightarrow> Inr False) \<and>
      stored (snd (land_use_submit f form rows hid s)) = stored s \<and>
      trace (snd (land_use_submit f form rows hid s)) = trace s"
  proof
    assume a: "r \<in> set rows \<and> cell_gt (df_developed_acres r) (df_total_acres r) = Inr True"
    have e: "Developed_exceeds_total (df_parcel_no r) \<in> set errors"
      if v: "fst (validate_parcels rows) = Inr errors" for errors
    proof -
      from validate_parcels_Inr [OF v]
      have rs: "\<forall>r\<in>set rows. \<exists>er. fst (validate_parcel r ([], [])) = Inr er"
        and c: "errors = concat (map (\<lambda>r. projr (fst (validate_parcel r ([], [])))) rows)"
        by simp_all
      from rs a obtain er where er: "fst (validate_parcel r ([], [])) = Inr er" by blast
      from a validate_parcel_developed [OF _ er]
      have "Developed_exceeds_total (df_parcel_no r) \<in> set (projr (fst (validate_parcel r ([], []))))"
        unfolding er by simp
      with a show ?thesis unfolding c by auto
    qed
    show "(\<forall>errors. fst (validate_parcels rows) = Inr errors \<longrightarrow>
                  Developed_exceeds_total (df_parcel_no r) \<in> set errors) \<and>
      fst (land_use_submit f form rows hid s) =
        (case fst (validate_parcels rows) of Inl e \<Rightarrow> Inl e | Inr errors \<Rightarrow> Inr False) \<and>
      stored (snd (land_use_submit f form rows hid s)) = stored s \<and>
      trace (snd (land_use_submit f form rows hid s)) = trace s"
    proof (cases "fst (validate_parcels rows)")
      case (Inl x)
      note sub = land_use_submit_raises [OF Inl, of f form hid s]
      show ?thesis unfolding sub Inl by simp
    next
      case (Inr errs)
      from e [OF Inr] have ne: "errs \<noteq> []" by auto
      note sub = land_use_submit_rejected [OF Inr ne, of f form hid s]
      from e [OF Inr] show ?thesis unfolding sub Inr by simp
    qed
  qed
  have 2: "r \<in> set rows \<and> cell_gt (df_irrigated_area r) (df_total_acres r) = Inr True \<longrightarrow>
      (\<forall>errors. fst (validate_parcels rows) = Inr errors \<longrightarrow>
                  Warning (Irrigated_exceeds_total (df_parcel_no r)) \<in> set (snd (validate_parcels rows)))"
  proof (intro impI allI)
    fix errors
    assume a: "r \<in> set rows \<and> cell_gt (df_irrigated_area r) (df_total_acres r) = Inr True"
      and v: "fst (validate_parcels rows) = Inr errors"
    from validate_parcels_Inr [OF v]
    have rs: "\<forall>r\<in>set rows. \<exists>er. fst (validate_parcel r ([], [])) = Inr er"
      and w: "snd (validate_parcels rows) = concat (map (\<lambda>r. snd (validate_parcel r ([], []))) rows)"
      by simp_all
    from rs a obtain er where er: "fst (validate_parcel r ([], [])) = Inr er" by blast
    from a validate_parcel_irrigated [OF _ er]
    have "Warning (Irrigated_exceeds_total (df_parcel_no r)) \<in> set (snd (validate_parcel r ([], [])))"
      by simp
    with a show "Warning (Irrigated_exceeds_total (df_parcel_no r)) \<in> set (snd (validate_parcels rows))"
      unfolding w by auto
  qed
  have 3: "fst (validate_parcels rows) = Inr [] \<longleftrightarrow>
      (\<forall>r\<in>set rows. cell_lt (df_total_acres r) (Value 0) = Inr False \<and>
                       cell_lt (df_developed_acres r) (Value 0) = Inr False \<and>
                       cell_lt (df_irrigated_area r) (Value 0) = Inr False \<and>
                       cell_gt (df_developed_acres r) (df_total_acres r) = Inr False)"
    unfolding validate_parcels_no_errors validate_parcel_no_errors ..
  note 4 = validate_parcels_returns [of rows]
  from 1 2 3 4 show ?thesis by (intro conjI)
qed

theorem parcel_cross_field_checks_witness:
  "validate_parcels [df_row_example 1 (Value 5) (Value 6) (Value 0)]
     = (Inr [Developed_exceeds_total (Value 1)], []) \<and>
   fst (land_use_submit no_faults form_example [df_row_example 1 (Value 5) (Value 6) (Value 0)] 7
          empty_session) = Inr False \<and>
   trace (snd (land_use_submit no_faults form_example [df_row_example 1 (Value 5) (Value 6) (Value 0)] 7
                 empty_session)) = [] \<and>
   validate_parcels [df_row_example 1 (Value 5) (Value 2) (Value 9)]
     = (Inr [], [Warning (Irrigated_exceeds_total (Value 1))]) \<and>
   validate_parcels [df_row_example 1 NaN NaN NaN] = (Inr [], []) \<and>
   fst (validate_parcels [df_row_example 1 Missing (Value 6) (Value 0)]) = Inl Other_Exception"
proof -
  let ?bad = "df_row_example 1 (Value 5) (Value 6) (Value 0)"
  let ?wet = "df_row_example 1 (Value 5) (Value 2) (Value 9)"
  let ?blank = "df_row_example 1 NaN NaN NaN"
  let ?none = "df_row_example 1 Missing (Value 6) (Value 0)"
  have v1: "validate_parcels [?bad] = (Inr [Developed_exceeds_total (Value 1)], [])"
    by (simp add: validate_parcels_def parcel_defs)
  have v2: "validate_parcels [?wet] = (Inr [], [Warning (Irrigated_exceeds_total (Value 1))])"
    by (simp add: validate_parcels_def parcel_defs)
  have v3: "validate_parcels [?blank] = (Inr [], [])"
    by (simp add: validate_parcels_def parcel_defs)
  have v4: "fst (validate_parcels [?none]) = Inl Other_Exception"
    by (simp add: validate_parcels_def parcel_defs)
  have h1: "?bad \<in> set [?bad] \<and> cell_gt (df_developed_acres ?bad) (df_total_acres ?bad) = Inr True"
    by (simp add: cell_gt_def)
  from parcel_cross_field_checks [of ?bad "[?bad]" no_faults form_example 7 empty_session] h1
  have a: "fst (land_use_submit no_faults form_example [?bad] 7 empty_session)
             = (case fst (validate_parcels [?bad]) of Inl e \<Rightarrow> Inl e | Inr errors \<Rightarrow> Inr False)"
    and b: "trace (snd (land_use_submit no_faults form_example [?bad] 7 empty_session)) = trace empty_session"
    by blast+
  from a have a': "fst (land_use_submit no_faults form_example [?bad] 7 empty_session) = Inr False"
    unfolding v1 by simp
  from a' b v1 v2 v3 v4 show ?thesis by simp
qed

text \<open>
  Claim C4. If one of \<open>quantity_new\<close>, \<open>quantity_used\<close>, \<open>quantity_out_of_service\<close> of some
  row lies outside \<open>[0, 20]\<close>, \<open>validate_machinery_data\<close> returns \<open>False\<close> and the
  submitted form only shows the errors: no statement is issued and the stored tables stay as
  they are. Conversely, when every quantity lies in the range, no out-of-range report is
  emitted and the result is decided by the name length and the has-item checks.
\<close>

theorem quantity_range_enforced:
  "((\<exists>r\<in>set rows. quantity_new r < 0 \<or> 20 < quantity_new r \<or>
                    quantity_used r < 0 \<or> 20 < quantity_used r \<or>
                    quantity_out_of_service r < 0 \<or> 20 < quantity_out_of_service r) \<longrightarrow>
      fst (validate_machinery_data rows) = False \<and>
      machinery_submit f rows s = (Inr (), s\<lparr>ui := ui s @ snd (validate_machinery_data rows)\<rparr>)) \<and>
   ((\<forall>r\<in>set rows. 0 \<le> quantity_new r \<and> quantity_new r \<le> 20 \<and>
                    0 \<le> quantity_used r \<and> quantity_used r \<le> 20 \<and>
                    0 \<le> quantity_out_of_service r \<and> quantity_out_of_service r \<le> 20) \<longrightarrow>
      Error (Quantity_out_of_range n t) \<notin> set (snd (validate_machinery_data rows)) \<and>
      fst (validate_machinery_data rows) =
        (\<forall>r\<in>set rows. length (equipment_name r) \<le> 100 \<and>
           (has_item r = ''Y'' \<longrightarrow>
              quantity_new r + quantity_used r + quantity_out_of_service r \<noteq> 0)))"
proof (intro conjI impI)
  assume bad: "\<exists>r\<in>set rows. quantity_new r < 0 \<or> 20 < quantity_new r \<or>
                    quantity_used r < 0 \<or> 20 < quantity_used r \<or>
                    quantity_out_of_service r < 0 \<or> 20 < quantity_out_of_service r"
  then have "\<not> fst (validate_machinery_data rows)"
    unfolding validate_ok_iff by (auto simp add: not_le)
  then show "fst (validate_machinery_data rows) = False"
    and "machinery_submit f rows s = (Inr (), s\<lparr>ui := ui s @ snd (validate_machinery_data rows)\<rparr>)"
    by (simp_all add: machinery_submit_rejected)
next
  assume ok: "\<forall>r\<in>set rows. 0 \<le> quantity_new r \<and> quantity_new r \<le> 20 \<and>
                    0 \<le> quantity_used r \<and> quantity_used r \<le> 20 \<and>
                    0 \<le> quantity_out_of_service r \<and> quantity_out_of_service r \<le> 20"
  show "Error (Quantity_out_of_range n t) \<notin> set (snd (validate_machinery_data rows))"
  proof
    assume "Error (Quantity_out_of_range n t) \<in> set (snd (validate_machinery_data rows))"
    then obtain j r where jr: "(j, r) \<in> set (zip [0 ..< length rows] rows)"
      and ev: "Error (Quantity_out_of_range n t) \<in> set (snd (validate_row j r (True, [])))"
      unfolding validate_events_iff by blast
    from jr have "r \<in> set rows" by (rule set_zip_rightD)
    with ok ev show False using validate_row_snd_range by blast
  qed
  show "fst (validate_machinery_data rows) =
        (\<forall>r\<in>set rows. length (equipment_name r) \<le> 100 \<and>
           (has_item r = ''Y'' \<longrightarrow>
              quantity_new r + quantity_used r + quantity_out_of_service r \<noteq> 0))"
    unfolding validate_ok_iff using ok by blast
qed

theorem quantity_range_enforced_witness:
  "(\<exists>r\<in>set [machinery_example ''42'' ''N'' ''Tractor'' 21 0 0].
       quantity_new r < 0 \<or> 20 < quantity_new r \<or> quantity_used r < 0 \<or> 20 < quantity_used r \<or>
       quantity_out_of_service r < 0 \<or> 20 < quantity_out_of_service r) \<and>
   fst (validate_machinery_data [machinery_example ''42'' ''N'' ''Tractor'' 21 0 0]) = False \<and>
   trace (snd (machinery_submit no_faults [machinery_example ''42'' ''N'' ''Tractor'' 21 0 0] empty_session)) = [] \<and>
   quantity_new (machinery_example ''42'' ''Y'' ''Tractor'' 20 0 0) = 20 \<and>
   fst (validate_machinery_data [machinery_example ''42'' ''Y'' ''Tractor'' 20 0 0]) = True"
proof -
  let ?bad = "machinery_example ''42'' ''N'' ''Tractor'' 21 0 0"
  let ?good = "machinery_example ''42'' ''Y'' ''Tractor'' 20 0 0"
  have h1: "\<exists>r\<in>set [?bad].
       quantity_new r < 0 \<or> 20 < quantity_new r \<or> quantity_used r < 0 \<or> 20 < quantity_used r \<or>
       quantity_out_of_service r < 0 \<or> 20 < quantity_out_of_service r" by simp
  have h2: "\<forall>r\<in>set [?good].
       0 \<le> quantity_new r \<and> quantity_new r \<le> 20 \<and> 0 \<le> quantity_used r \<and> quantity_used r \<le> 20 \<and>
       0 \<le> quantity_out_of_service r \<and> quantity_out_of_service r \<le> 20" by simp
  from quantity_range_enforced [of "[?bad]" no_faults empty_session "''x''" "''y''"] h1
  have a: "fst (validate_machinery_data [?bad]) = False"
    and sub: "machinery_submit no_faults [?bad] empty_session =
       (Inr (), empty_session\<lparr>ui := ui empty_session @ snd (validate_machinery_data [?bad])\<rparr>)"
    by blast+
  have tr: "trace (snd (machinery_submit no_faults [?bad] empty_session)) = []"
    unfolding sub by simp
  from quantity_range_enforced [of "[?good]" no_faults empty_session "''x''" "''y''"] h2
  have "fst (validate_machinery_data [?good]) =
        (\<forall>r\<in>set [?good]. length (equipment_name r) \<le> 100 \<and>
           (has_item r = ''Y'' \<longrightarrow> quantity_new r + quantity_used r + quantity_out_of_service r \<noteq> 0))"
    by blast
  then have b: "fst (validate_machinery_data [?good]) = True" by simp
  have c: "quantity_new ?good = 20" by simp
  from h1 a tr c b show ?thesis by (simp only: simp_thms)
qed

text \<open>
  Claim C5. A row with \<open>has_item = "Y"\<close> whose three quantities sum to \<open>0\<close> makes
  \<open>validate_machinery_data\<close> return \<open>False\<close>; every such row of the list gets its own
  report (the loop does not stop at the first failure); the submitted form does not call
  \<open>save_to_db\<close>, so the session only gains the error events and \<open>load_existing_data\<close>
  returns afterwards what it returned before, the empty list for a first-time holder.
\<close>

theorem quantities_required_when_marked:
  assumes "r \<in> set rows" and "has_item r = ''Y''"
    and "quantity_new r + quantity_used r + quantity_out_of_service r = 0"
  shows "fst (validate_machinery_data rows) = False \<and>
         (\<forall>r'\<in>set rows. has_item r' = ''Y'' \<and>
              quantity_new r' + quantity_used r' + quantity_out_of_service r' = 0 \<longrightarrow>
            Error (Please_enter_quantities (equipment_name r')) \<in> set (snd (validate_machinery_data rows))) \<and>
         machinery_submit f rows s = (Inr (), s\<lparr>ui := ui s @ snd (validate_machinery_data rows)\<rparr>) \<and>
         fst (load_existing_data g h (snd (machinery_submit f rows s))) = fst (load_existing_data g h s)"
proof -
  from assms have no: "\<not> fst (validate_machinery_data rows)"
    unfolding validate_ok_iff by blast
  then have sub: "machinery_submit f rows s = (Inr (), s\<lparr>ui := ui s @ snd (validate_machinery_data rows)\<rparr>)"
    by (rule machinery_submit_rejected)
  have ev: "\<forall>r'\<in>set rows. has_item r' = ''Y'' \<and>
              quantity_new r' + quantity_used r' + quantity_out_of_service r' = 0 \<longrightarrow>
            Error (Please_enter_quantities (equipment_name r')) \<in> set (snd (validate_machinery_data rows))"
  proof (intro ballI impI)
    fix r' assume r': "r' \<in> set rows"
      and c: "has_item r' = ''Y'' \<and> quantity_new r' + quantity_used r' + quantity_out_of_service r' = 0"
    from in_set_zip_upt [OF r'] obtain j where "(j, r') \<in> set (zip [0 ..< length rows] rows)" ..
    moreover from c have "Error (Please_enter_quantities (equipment_name r')) \<in> set (snd (validate_row j r' (True, [])))"
      by (simp add: validate_row_snd_quantities)
    ultimately have "\<exists>(j, r)\<in>set (zip [0 ..< length rows] rows).
         Error (Please_enter_quantities (equipment_name r')) \<in> set (snd (validate_row j r (True, [])))"
      by (intro bexI [of _ "(j, r')"]) simp_all
    then show "Error (Please_enter_quantities (equipment_name r')) \<in> set (snd (validate_machinery_data rows))"
      by (simp only: validate_events_iff)
  qed
  have ld: "fst (load_existing_data g h (s\<lparr>ui := ui s @ snd (validate_machinery_data rows)\<rparr>)) = fst (load_existing_data g h s)"
    by (rule load_existing_data_depends) simp
  have ld': "fst (load_existing_data g h (snd (machinery_submit f rows s))) = fst (load_existing_data g h s)"
    by (simp only: sub snd_conv ld)
  from no have no': "fst (validate_machinery_data rows) = False" by simp
  from no' ev sub ld' show ?thesis by (intro conjI)
qed

theorem quantities_required_when_marked_witness:
  "machinery_example ''42'' ''Y'' ''Tractor'' 0 0 0 \<in> set [machinery_example ''42'' ''Y'' ''Tractor'' 0 0 0] \<and>
   validate_machinery_data [machinery_example ''42'' ''Y'' ''Tractor'' 0 0 0]
     = (False, [Error (Please_enter_quantities ''Tractor'')]) \<and>
   stored (snd (machinery_submit no_faults [machinery_example ''42'' ''Y'' ''Tractor'' 0 0 0] empty_session))
     = empty_tables \<and>
   trace (snd (machinery_submit no_faults [machinery_example ''42'' ''Y'' ''Tractor'' 0 0 0] empty_session)) = [] \<and>
   fst (load_existing_data no_faults ''42''
          (snd (machinery_submit no_faults [machinery_example ''42'' ''Y'' ''Tractor'' 0 0 0] empty_session))) = []"
proof -
  let ?r = "machinery_example ''42'' ''Y'' ''Tractor'' 0 0 0"
  have h1: "?r \<in> set [?r]" by simp
  have h2: "has_item ?r = ''Y''" by simp
  have h3: "quantity_new ?r + quantity_used ?r + quantity_out_of_service ?r = 0" by simp
  note th = quantities_required_when_marked [OF h1 h2 h3, of no_faults empty_session no_faults "''42''"]
  have v: "validate_machinery_data [?r] = (False, [Error (Please_enter_quantities ''Tractor'')])"
    by (simp add: validate_machinery_data_def validate_row_def report_if_def qty_value_def
          open_entry_guard_def startswith_def Let_def)
  have l: "fst (load_existing_data no_faults ''42'' empty_session) = []"
    by (simp add: run_defs)
  from th have sub: "machinery_submit no_faults [?r] empty_session =
      (Inr (), empty_session\<lparr>ui := ui empty_session @ snd (validate_machinery_data [?r])\<rparr>)"
    and ld: "fst (load_existing_data no_faults ''42'' (snd (machinery_submit no_faults [?r] empty_session)))
             = fst (load_existing_data no_faults ''42'' empty_session)"
    by blast+
  have st: "stored (snd (machinery_submit no_faults [?r] empty_session)) = empty_tables"
    and tr: "trace (snd (machinery_submit no_faults [?r] empty_session)) = []"
    unfolding sub by simp_all
  from h1 v st tr ld l show ?thesis by (simp only: simp_thms)
qed

text \<open>
  Claim C6. \<open>save_to_db\<close> and \<open>save_land_use_to_db\<close> are atomic. Whichever statements
  raise, a save that does not report success leaves the stored tables exactly as they were,
  and when the connection was opened it has issued a rollback. A save that reports success
  has stored the whole new row set in place of the holder's earlier rows, and none of the
  statements it issued raised. So a failure of the bulk insert after the delete cannot leave
  the earlier rows deleted, and no part of the new rows is stored without the rest.
\<close>

theorem save_is_atomic:
  "(fst (save_to_db f rows s) \<noteq> Inr True \<longrightarrow>
      stored (snd (save_to_db f rows s)) = stored s) \<and>
   (rows \<noteq> [] \<and> f Connect = None \<and> fst (save_to_db f rows s) \<noteq> Inr True \<longrightarrow>
      Rollback \<in> set (trace (snd (save_to_db f rows s)))) \<and>
   (fst (save_to_db f rows s) = Inr True \<longrightarrow>
      rows \<noteq> [] \<and>
      agricultural_machinery (stored (snd (save_to_db f rows s))) =
        filter (\<lambda>(i, r). holder_id r \<noteq> holder_id (hd rows)) (agricultural_machinery (stored s))
        @ zip [seq_machinery s ..< seq_machinery s + length rows] rows \<and>
      f Connect = None \<and> f (Select Agricultural_machinery) = None \<and>
      (machinery_of (holder_id (hd rows)) (agricultural_machinery (stored s)) \<noteq> []
         \<longrightarrow> f (Delete Agricultural_machinery) = None) \<and>
      (\<forall>j < length (paginate 100 rows). f (Insert Agricultural_machinery j) = None) \<and>
      f Commit = None) \<and>
   (fst (save_land_use_to_db f d hid s) \<noteq> Inr True \<longrightarrow>
      stored (snd (save_land_use_to_db f d hid s)) = stored s) \<and>
   (f Connect = None \<and> fst (save_land_use_to_db f d hid s) \<noteq> Inr True \<longrightarrow>
      Rollback \<in> set (trace (snd (save_land_use_to_db f d hid s)))) \<and>
   (fst (save_land_use_to_db f d hid s) = Inr True \<longrightarrow>
      f Connect = None \<and> f (Select Land_use) = None \<and> f Commit = None \<and>
      (\<forall>j < length (paginate 100 (parcels d)). f (Insert Land_use_parcels j) = None) \<and>
      (case fetchone_id land_use_id (filter (\<lambda>r. land_use_holder_id r = hid) (land_use (stored s))) of
         Some l \<Rightarrow>
           f (Update Land_use) = None \<and> f (Delete Land_use_parcels) = None \<and>
           land_use_parcels (stored (snd (save_land_use_to_db f d hid s))) =
             filter (\<lambda>(l', p). l' \<noteq> l) (land_use_parcels (stored s)) @ map (Pair l) (parcels d)
       | None \<Rightarrow>
           f (Insert Land_use 0) = None \<and>
           land_use_parcels (stored (snd (save_land_use_to_db f d hid s))) =
             land_use_parcels (stored s) @ map (Pair (seq_land_use s)) (parcels d)))"
proof -
  let ?m = "save_to_db f rows s" and ?l = "save_land_use_to_db f d hid s"
  have m1: "fst ?m \<noteq> Inr True \<longrightarrow> stored (snd ?m) = stored s"
    using save_to_db_failure by blast
  have m2: "rows \<noteq> [] \<and> f Connect = None \<and> fst ?m \<noteq> Inr True \<longrightarrow> Rollback \<in> set (trace (snd ?m))"
    using save_to_db_rollback by blast
  have m3: "fst ?m = Inr True \<longrightarrow>
      rows \<noteq> [] \<and>
      agricultural_machinery (stored (snd ?m)) =
        filter (\<lambda>(i, r). holder_id r \<noteq> holder_id (hd rows)) (agricultural_machinery (stored s))
        @ zip [seq_machinery s ..< seq_machinery s + length rows] rows \<and>
      f Connect = None \<and> f (Select Agricultural_machinery) = None \<and>
      (machinery_of (holder_id (hd rows)) (agricultural_machinery (stored s)) \<noteq> []
         \<longrightarrow> f (Delete Agricultural_machinery) = None) \<and>
      (\<forall>j < length (paginate 100 rows). f (Insert Agricultural_machinery j) = None) \<and>
      f Commit = None"
  proof
    assume "fst ?m = Inr True"
    then have e: "?m = (Inr True, snd ?m)" by (metis prod.collapse)
    from save_to_db_success [OF e] obtain row0 rest where rows: "rows = row0 # rest"
      and m: "agricultural_machinery (stored (snd ?m)) =
         filter (\<lambda>(i, r). holder_id r \<noteq> holder_id row0) (agricultural_machinery (stored s))
         @ zip [seq_machinery s ..< seq_machinery s + length rows] rows"
      and fs: "f Connect = None" "f (Select Agricultural_machinery) = None"
        "machinery_of (holder_id row0) (agricultural_machinery (stored s)) \<noteq> []
          \<longrightarrow> f (Delete Agricultural_machinery) = None"
        "\<forall>j < length (paginate 100 rows). f (Insert Agricultural_machinery j) = None"
        "f Commit = None"
      by blast
    from rows have hd: "hd rows = row0" and ne: "rows \<noteq> []" by simp_all
    from ne m fs show "rows \<noteq> [] \<and>
      agricultural_machinery (stored (snd ?m)) =
        filter (\<lambda>(i, r). holder_id r \<noteq> holder_id (hd rows)) (agricultural_machinery (stored s))
        @ zip [seq_machinery s ..< seq_machinery s + length rows] rows \<and>
      f Connect = None \<and> f (Select Agricultural_machinery) = None \<and>
      (machinery_of (holder_id (hd rows)) (agricultural_machinery (stored s)) \<noteq> []
         \<longrightarrow> f (Delete Agricultural_machinery) = None) \<and>
      (\<forall>j < length (paginate 100 rows). f (Insert Agricultural_machinery j) = None) \<and>
      f Commit = None"
      unfolding hd by (intro conjI) simp_all
  qed
  have l1: "fst ?l \<noteq> Inr True \<longrightarrow> stored (snd ?l) = stored s"
    using save_land_use_failure by blast
  have l2: "f Connect = None \<and> fst ?l \<noteq> Inr True \<longrightarrow> Rollback \<in> set (trace (snd ?l))"
    using save_land_use_rollback by blast
  have l3: "fst ?l = Inr True \<longrightarrow>
      f Connect = None \<and> f (Select Land_use) = None \<and> f Commit = None \<and>
      (\<forall>j < length (paginate 100 (parcels d)). f (Insert Land_use_parcels j) = None) \<and>
      (case fetchone_id land_use_id (filter (\<lambda>r. land_use_holder_id r = hid) (land_use (stored s))) of
         Some l \<Rightarrow>
           f (Update Land_use) = None \<and> f (Delete Land_use_parcels) = None \<and>
           land_use_parcels (stored (snd ?l)) =
             filter (\<lambda>(l', p). l' \<noteq> l) (land_use_parcels (stored s)) @ map (Pair l) (parcels d)
       | None \<Rightarrow>
           f (Insert Land_use 0) = None \<and>
           land_use_parcels (stored (snd ?l)) =
             land_use_parcels (stored s) @ map (Pair (seq_land_use s)) (parcels d))"
  proof
    assume "fst ?l = Inr True"
    then have e: "?l = (Inr True, snd ?l)" by (metis prod.collapse)
    from save_land_use_success [OF e]
    show "f Connect = None \<and> f (Select Land_use) = None \<and> f Commit = None \<and>
      (\<forall>j < length (paginate 100 (parcels d)). f (Insert Land_use_parcels j) = None) \<and>
      (case fetchone_id land_use_id (filter (\<lambda>r. land_use_holder_id r = hid) (land_use (stored s))) of
         Some l \<Rightarrow>
           f (Update Land_use) = None \<and> f (Delete Land_use_parcels) = None \<and>
           land_use_parcels (stored (snd ?l)) =
             filter (\<lambda>(l', p). l' \<noteq> l) (land_use_parcels (stored s)) @ map (Pair l) (parcels d)
       | None \<Rightarrow>
           f (Insert Land_use 0) = None \<and>
           land_use_parcels (stored (snd ?l)) =
             land_use_parcels (stored s) @ map (Pair (seq_land_use s)) (parcels d))"
      by (simp split: option.splits)
  qed
  from m1 m2 m3 l1 l2 l3 show ?thesis by (intro conjI)
qed

theorem save_is_atomic_witness:
  "fst (save_to_db insert_fails [machinery_example ''42'' ''Y'' ''Truck'' 2 0 0] session_example) = Inr False \<and>
   stored (snd (save_to_db insert_fails [machinery_example ''42'' ''Y'' ''Truck'' 2 0 0] session_example))
     = stored_tables_example \<and>
   Rollback \<in> set (trace (snd (save_to_db insert_fails [machinery_example ''42'' ''Y'' ''Truck'' 2 0 0]
                                     session_example))) \<and>
   fst (save_land_use_to_db no_faults
          (land_use_example [parcel_example 1 4 1 0, parcel_example 1 6 2 0]) 7 session_example) = Inr False \<and>
   stored (snd (save_land_use_to_db no_faults
          (land_use_example [parcel_example 1 4 1 0, parcel_example 1 6 2 0]) 7 session_example))
     = stored_tables_example"
proof -
  let ?rows = "[machinery_example ''42'' ''Y'' ''Truck'' 2 0 0]"
  let ?d = "land_use_example [parcel_example 1 4 1 0, parcel_example 1 6 2 0]"
  note th = save_is_atomic [of insert_fails ?rows session_example ?d 7]
  note th' = save_is_atomic [of no_faults ?rows session_example ?d 7]
  have p1: "paginate 100 ?rows = [?rows]" by (rule paginate_small) simp_all
  have m: "fst (save_to_db insert_fails ?rows session_example) = Inr False"
    by (simp add: save_defs p1)
  have p2: "paginate 100 [parcel_example 1 4 1 0, parcel_example 1 6 2 0]
            = [[parcel_example 1 4 1 0, parcel_example 1 6 2 0]]" by (rule paginate_small) simp_all
  have l: "fst (save_land_use_to_db no_faults ?d 7 session_example) = Inr False"
    by (simp add: land_use_defs p2)
  from th m have m1: "stored (snd (save_to_db insert_fails ?rows session_example)) = stored session_example"
    and m2: "Rollback \<in> set (trace (snd (save_to_db insert_fails ?rows session_example)))"
    by simp_all
  from th' l have l1: "stored (snd (save_land_use_to_db no_faults ?d 7 session_example)) = stored session_example"
    by simp
  from m m1 m2 l l1 show ?thesis by simp
qed




text \<open>
  Claim C8. \<open>save_to_db\<close> on an empty list returns \<open>False\<close>, issues no statement, leaves the
  stored tables unchanged and reports the call with a warning.
\<close>

theorem empty_save_is_noop:
  "save_to_db f [] s = (Inr False, s\<lparr>ui := ui s @ [Warning No_data_to_save]\<rparr>) \<and>
   trace (snd (save_to_db f [] s)) = trace s \<and>
   stored (snd (save_to_db f [] s)) = stored s"
  by (simp add: save_to_db_def emit_def)

theorem empty_save_is_noop_witness:
  "save_to_db no_faults [] empty_session =
     (Inr False, empty_session\<lparr>ui := [Warning No_data_to_save]\<rparr>)"
  using empty_save_is_noop [of no_faults empty_session] by simp




text \<open>
  Claim C10. In \<open>validate_machinery_data\<close> the branch that reports "Please specify the
  equipment type for Open Entry" is guarded by \<open>"Open Entry" in equipment_name\<close> together
  with an empty \<open>equipment_name.strip()\<close>. No string satisfies both: the guard is false for
  every name, the report is never among the events of the validator for any list of rows, and
  the result of the validator is decided by the other checks alone.
\<close>

theorem open_entry_branch_unreachable:
  "\<not> open_entry_guard name \<and>
   Error (Open_entry_unspecified k) \<notin> set (snd (validate_machinery_data rows)) \<and>
   fst (validate_machinery_data rows) =
     (\<forall>r\<in>set rows.
        length (equipment_name r) \<le> 100 \<and>
        (has_item r = ''Y'' \<longrightarrow> quantity_new r + quantity_used r + quantity_out_of_service r \<noteq> 0) \<and>
        0 \<le> quantity_new r \<and> quantity_new r \<le> 20 \<and>
        0 \<le> quantity_used r \<and> quantity_used r \<le> 20 \<and>
        0 \<le> quantity_out_of_service r \<and> quantity_out_of_service r \<le> 20)"
proof (intro conjI)
  show "\<not> open_entry_guard name" by (rule open_entry_guard_False)
  show "Error (Open_entry_unspecified k) \<notin> set (snd (validate_machinery_data rows))"
    by (auto simp add: validate_events_iff validate_row_snd_open)
  show "fst (validate_machinery_data rows) =
     (\<forall>r\<in>set rows.
        length (equipment_name r) \<le> 100 \<and>
        (has_item r = ''Y'' \<longrightarrow> quantity_new r + quantity_used r + quantity_out_of_service r \<noteq> 0) \<and>
        0 \<le> quantity_new r \<and> quantity_new r \<le> 20 \<and>
        0 \<le> quantity_used r \<and> quantity_used r \<le> 20 \<and>
        0 \<le> quantity_out_of_service r \<and> quantity_out_of_service r \<le> 20)"
    by (rule validate_ok_iff)
qed

theorem open_entry_branch_unreachable_witness:
  "\<not> open_entry_guard ''Open Entry 1'' \<and> \<not> open_entry_guard ''   '' \<and>
   validate_machinery_data [machinery_example ''42'' ''N'' ''Open Entry 1'' 0 0 0] = (True, [])"
proof -
  let ?r = "machinery_example ''42'' ''N'' ''Open Entry 1'' 0 0 0"
  note th = open_entry_branch_unreachable [of "''Open Entry 1''" "1" "[?r]"]
  note th' = open_entry_branch_unreachable [of "''   ''" "1" "[?r]"]
  have v: "validate_machinery_data [?r] = (True, [])"
    by (simp add: validate_machinery_data_def validate_row_def report_if_def qty_value_def
          open_entry_guard_def strip_def isspace_def Let_def)
  from th th' v show ?thesis by blast
qed

end
